theory Spec2Isabelle
  imports Complex_Main "HOL-Library.Word"
begin

section \<open>Array samples: IEEE-754 values\<close>

text \<open>
  The arrays handled by \<^verbatim>\<open>functions_misc.py\<close> and \<^verbatim>\<open>functions_fits.py\<close> are numpy
  arrays of float64 samples in which NaN marks an invalid pixel. A sample is NaN, one of
  the two infinities, or a finite number. Finite arithmetic is carried out on the reals:
  rounding, overflow and the sign of zero are not represented. The special values follow
  IEEE-754 as numpy applies it elementwise: NaN is absorbing, every ordered comparison
  with NaN is false, \<^verbatim>\<open>!=\<close> with NaN is true, division by zero gives an infinity or
  NaN and never raises.
\<close>

datatype float64 = NaN | MInf | Fin real | PInf

fun isnan :: "float64 \<Rightarrow> bool" where
  "isnan NaN = True"
| "isnan _ = False"

fun fneg :: "float64 \<Rightarrow> float64" where
  "fneg NaN = NaN"
| "fneg MInf = PInf"
| "fneg PInf = MInf"
| "fneg (Fin a) = Fin (- a)"

fun fadd :: "float64 \<Rightarrow> float64 \<Rightarrow> float64" where
  "fadd (Fin a) (Fin b) = Fin (a + b)"
| "fadd NaN _ = NaN"
| "fadd _ NaN = NaN"
| "fadd PInf MInf = NaN"
| "fadd MInf PInf = NaN"
| "fadd PInf _ = PInf"
| "fadd _ PInf = PInf"
| "fadd MInf _ = MInf"
| "fadd _ MInf = MInf"

definition fsub :: "float64 \<Rightarrow> float64 \<Rightarrow> float64" where
  "fsub x y = fadd x (fneg y)"

text \<open>The sign of an infinite product or quotient: \<open>inf_of True\<close> is \<open>+inf\<close>.\<close>

definition inf_of :: "bool \<Rightarrow> float64" where
  "inf_of pos = (if pos then PInf else MInf)"

fun fmul :: "float64 \<Rightarrow> float64 \<Rightarrow> float64" where
  "fmul (Fin a) (Fin b) = Fin (a * b)"
| "fmul NaN _ = NaN"
| "fmul _ NaN = NaN"
| "fmul (Fin a) PInf = (if a = 0 then NaN else inf_of (0 < a))"
| "fmul (Fin a) MInf = (if a = 0 then NaN else inf_of (a < 0))"
| "fmul PInf (Fin b) = (if b = 0 then NaN else inf_of (0 < b))"
| "fmul MInf (Fin b) = (if b = 0 then NaN else inf_of (b < 0))"
| "fmul PInf PInf = PInf"
| "fmul MInf MInf = PInf"
| "fmul PInf MInf = MInf"
| "fmul MInf PInf = MInf"

fun fdiv :: "float64 \<Rightarrow> float64 \<Rightarrow> float64" where
  "fdiv (Fin a) (Fin b) =
     (if b = 0 then (if a = 0 then NaN else inf_of (0 < a)) else Fin (a / b))"
| "fdiv NaN _ = NaN"
| "fdiv _ NaN = NaN"
| "fdiv (Fin a) PInf = Fin 0"
| "fdiv (Fin a) MInf = Fin 0"
| "fdiv PInf (Fin b) = inf_of (0 \<le> b)"
| "fdiv MInf (Fin b) = inf_of (b < 0)"
| "fdiv PInf PInf = NaN"
| "fdiv MInf MInf = NaN"
| "fdiv PInf MInf = NaN"
| "fdiv MInf PInf = NaN"

fun flt :: "float64 \<Rightarrow> float64 \<Rightarrow> bool" where
  "flt (Fin a) (Fin b) = (a < b)"
| "flt NaN _ = False"
| "flt _ NaN = False"
| "flt _ MInf = False"
| "flt MInf _ = True"
| "flt PInf _ = False"
| "flt (Fin a) PInf = True"

definition feq :: "float64 \<Rightarrow> float64 \<Rightarrow> bool" where
  "feq x y = (\<not> isnan x \<and> \<not> isnan y \<and> x = y)"

definition fne :: "float64 \<Rightarrow> float64 \<Rightarrow> bool" where
  "fne x y = (\<not> feq x y)"

definition fge :: "float64 \<Rightarrow> float64 \<Rightarrow> bool" where
  "fge x y = (\<not> isnan x \<and> \<not> isnan y \<and> \<not> flt x y)"


text \<open>\<^verbatim>\<open>x**2.\<close> on a float.\<close>

definition fpow2 :: "float64 \<Rightarrow> float64" where
  "fpow2 x = fmul x x"

text \<open>\<^verbatim>\<open>np.sqrt\<close>: a negative argument gives NaN (numpy only warns), it does not raise.\<close>

fun fsqrt :: "float64 \<Rightarrow> float64" where
  "fsqrt NaN = NaN"
| "fsqrt MInf = NaN"
| "fsqrt PInf = PInf"
| "fsqrt (Fin a) = (if a < 0 then NaN else Fin (sqrt a))"

text \<open>\<^verbatim>\<open>np.abs\<close> on a float.\<close>

fun fabs :: "float64 \<Rightarrow> float64" where
  "fabs NaN = NaN"
| "fabs MInf = PInf"
| "fabs PInf = PInf"
| "fabs (Fin a) = Fin \<bar>a\<bar>"

section \<open>numpy arrays, the object store, Python errors\<close>

datatype pyerr =
    KeyError string
  | IndexError
  | ValueError
  | TypeError
  | UnboundLocalError
  | IOError

text \<open>
  An array is its shape and its samples in row-major order; a 0-d array (shape \<open>[]\<close>)
  stands for a Python scalar operand. A numpy array has as many samples as its shape says
  (\<open>wf_array\<close>).
\<close>

record ndarray =
  shape :: "nat list"
  dat :: "float64 list"

definition wf_array :: "ndarray \<Rightarrow> bool" where
  "wf_array a = (length (dat a) = prod_list (shape a))"

text \<open>
  A FITS header maps keywords to scalar values; \<^verbatim>\<open>header[key]\<close> on an absent keyword
  raises KeyError, and arithmetic on a string value raises TypeError. An integer value is
  kept as the 64-bit integer numpy makes of it; an integer card beyond that range is
  outside the model.
\<close>

datatype hval = IntV "64 word" | FloatV real | StrV string

type_synonym header = "string \<rightharpoonup> hval"

definition getitem :: "header \<Rightarrow> string \<Rightarrow> pyerr + hval" where
  "getitem h key = (case h key of None \<Rightarrow> Inl (KeyError key) | Some v \<Rightarrow> Inr v)"

fun hval_real :: "hval \<Rightarrow> pyerr + real" where
  "hval_real (IntV i) = Inr (real_of_int (sint i))"
| "hval_real (FloatV r) = Inr r"
| "hval_real (StrV _) = Inl TypeError"

text \<open>
  Arrays and headers are objects: a function receives references, and an assignment
  through a reference is seen by every holder of it. The store maps references to arrays
  and to headers; \<open>nxt\<close> is the next unused reference. An array is a window onto a block
  of memory: \<open>window s a\<close> names the block and gives, for each sample of the array in
  row-major order, its offset in the block. An array made by slicing another one is a
  window onto the same block, and an assignment through one array is seen by every array
  on the block, at the offsets they share.
\<close>

type_synonym addr = nat

record store =
  cells :: "addr \<Rightarrow> ndarray"
  window :: "addr \<Rightarrow> addr \<times> nat list"
  headers :: "addr \<Rightarrow> header"
  nxt :: addr

text \<open>A new array owns a new block.\<close>

definition alloc :: "store \<Rightarrow> ndarray \<Rightarrow> addr \<times> store" where
  "alloc s a =
     (nxt s, s\<lparr>cells := (cells s)(nxt s := a),
               window := (window s)(nxt s := (nxt s, [0..<length (dat a)])),
               nxt := Suc (nxt s)\<rparr>)"

text \<open>
  The samples of an array with offsets \<open>rpos\<close> after the samples \<open>wdat\<close> were written at
  the offsets \<open>wpos\<close> of its block.
\<close>

definition shared_update ::
  "nat list \<Rightarrow> float64 list \<Rightarrow> nat list \<Rightarrow> float64 list \<Rightarrow> float64 list" where
  "shared_update wpos wdat rpos rdat =
     map (\<lambda>j. case map_of (zip wpos wdat) (rpos ! j) of None \<Rightarrow> rdat ! j | Some v \<Rightarrow> v)
         [0..<length rdat]"

text \<open>What the array \<open>b\<close> holds once the samples of \<open>x\<close> were assigned through \<open>r\<close>.\<close>

definition seen_through :: "store \<Rightarrow> addr \<Rightarrow> ndarray \<Rightarrow> addr \<Rightarrow> ndarray" where
  "seen_through s r x b =
     (cells s b)\<lparr>dat := shared_update (snd (window s r)) (dat x)
                            (snd (window s b)) (dat (cells s b))\<rparr>"

text \<open>
  An assignment of new samples to the array \<open>r\<close>, in place: \<open>r\<close> holds them, an array
  on the same block sees them, an array on another block is untouched.
\<close>

definition put :: "store \<Rightarrow> addr \<Rightarrow> ndarray \<Rightarrow> store" where
  "put s r x =
     s\<lparr>cells := (\<lambda>b. if b = r then x
                      else if fst (window s b) = fst (window s r) then seen_through s r x b
                      else cells s b)\<rparr>"

text \<open>An argument that is either a Python float or a reference to an array.\<close>

datatype operand = Scalar float64 | Ref addr

definition scalar_array :: "float64 \<Rightarrow> ndarray" where
  "scalar_array v = \<lparr>shape = [], dat = [v]\<rparr>"

fun operand_val :: "store \<Rightarrow> operand \<Rightarrow> ndarray" where
  "operand_val s (Scalar v) = scalar_array v"
| "operand_val s (Ref a) = cells s a"

subsection \<open>Indexing and broadcasting\<close>

text \<open>Coordinates of a flat position in an array of the given shape, and back.\<close>

fun unravel :: "nat list \<Rightarrow> nat \<Rightarrow> nat list" where
  "unravel [] p = []"
| "unravel (d # ds) p = (p div prod_list ds) # unravel ds (p mod prod_list ds)"

fun ravel :: "nat list \<Rightarrow> nat list \<Rightarrow> nat" where
  "ravel (d # ds) (c # cs) = c * prod_list ds + ravel ds cs"
| "ravel _ _ = 0"

text \<open>
  numpy's broadcasting rule on shapes aligned at their last axis: two extents are
  compatible when they are equal or one of them is 1. The shapes are given reversed.
\<close>

fun bshape_rev :: "nat list \<Rightarrow> nat list \<Rightarrow> nat list option" where
  "bshape_rev [] ys = Some ys"
| "bshape_rev xs [] = Some xs"
| "bshape_rev (x # xs) (y # ys) =
     (if x = y \<or> y = 1 then map_option ((#) x) (bshape_rev xs ys)
      else if x = 1 then map_option ((#) y) (bshape_rev xs ys)
      else None)"

definition broadcast_shapes :: "nat list \<Rightarrow> nat list \<Rightarrow> nat list option" where
  "broadcast_shapes a b = map_option rev (bshape_rev (rev a) (rev b))"

text \<open>
  The coordinates read in a source of shape \<open>S\<close> for the coordinates \<open>cs\<close> of the
  broadcast result: leading axes the source lacks are dropped, an axis of extent 1 is
  read at 0.
\<close>

definition src_coords :: "nat list \<Rightarrow> nat list \<Rightarrow> nat list" where
  "src_coords S cs = map2 (\<lambda>d c. if d = 1 then 0 else c) S (drop (length cs - length S) cs)"

definition broadcast_to :: "ndarray \<Rightarrow> nat list \<Rightarrow> float64 list" where
  "broadcast_to a R =
     map (\<lambda>p. dat a ! ravel (shape a) (src_coords (shape a) (unravel R p))) [0..<prod_list R]"

text \<open>An elementwise binary operator of numpy (\<^verbatim>\<open>/\<close>, \<^verbatim>\<open>*\<close>) on two arrays.\<close>

definition np_binop ::
  "(float64 \<Rightarrow> float64 \<Rightarrow> float64) \<Rightarrow> ndarray \<Rightarrow> ndarray \<Rightarrow> pyerr + ndarray" where
  "np_binop f a b =
     (case broadcast_shapes (shape a) (shape b) of
        None \<Rightarrow> Inl ValueError
      | Some R \<Rightarrow> Inr \<lparr>shape = R, dat = map2 f (broadcast_to a R) (broadcast_to b R)\<rparr>)"

definition np_ones :: "nat list \<Rightarrow> ndarray" where
  "np_ones sh = \<lparr>shape = sh, dat = replicate (prod_list sh) (Fin 1)\<rparr>"

text \<open>
  \<^verbatim>\<open>np.where(cond)\<close> for a boolean array \<open>cond\<close> of shape \<open>R\<close>: one index array per
  axis of \<open>R\<close>, given here as the number of axes and the list of selected coordinates.
\<close>

definition np_where :: "nat list \<Rightarrow> bool list \<Rightarrow> nat \<times> nat list list" where
  "np_where R cond = (length R, map (unravel R) (filter (\<lambda>p. cond ! p) [0..<length cond]))"

text \<open>
  \<^verbatim>\<open>m[idx] = v\<close> for the index tuple of \<^verbatim>\<open>np.where\<close>: more index arrays than
  \<open>m\<close> has axes, or a coordinate outside \<open>m\<close>, raise IndexError; otherwise every
  position whose leading coordinates are selected is overwritten.
\<close>

definition setitem_where :: "ndarray \<Rightarrow> nat \<times> nat list list \<Rightarrow> float64 \<Rightarrow> pyerr + ndarray" where
  "setitem_where m idx v =
     (let r = fst idx; sel = snd idx; S = shape m in
      if length S < r then Inl IndexError
      else if \<exists>cs \<in> set sel. \<not> list_all2 (<) cs (take r S) then Inl IndexError
      else Inr (m\<lparr>dat := map (\<lambda>p. if take r (unravel S p) \<in> set sel then v else dat m ! p)
                            [0..<length (dat m)]\<rparr>))"

text \<open>\<^verbatim>\<open>a[sel(a)] -= c\<close>: the in-place subtraction on the samples a boolean mask selects.\<close>

definition isub_masked :: "(float64 \<Rightarrow> bool) \<Rightarrow> float64 \<Rightarrow> ndarray \<Rightarrow> ndarray" where
  "isub_masked sel c a = a\<lparr>dat := map (\<lambda>x. if sel x then fsub x c else x) (dat a)\<rparr>"

text \<open>An elementwise function of numpy (\<^verbatim>\<open>**2.\<close>, \<^verbatim>\<open>np.sqrt\<close>, \<^verbatim>\<open>np.isnan\<close>) on an array.\<close>

definition np_map :: "(float64 \<Rightarrow> float64) \<Rightarrow> ndarray \<Rightarrow> ndarray" where
  "np_map f a = a\<lparr>dat := map f (dat a)\<rparr>"

text \<open>
  \<^verbatim>\<open>a[b]\<close> for a boolean array \<open>b\<close> of shape \<open>T\<close>: \<open>T\<close> must be the leading part of
  the shape of \<open>a\<close>, and the result lists, in order, the blocks of \<open>a\<close> that \<open>b\<close> selects.
\<close>

definition np_take_bool :: "ndarray \<Rightarrow> nat list \<Rightarrow> bool list \<Rightarrow> pyerr + ndarray" where
  "np_take_bool a T b =
     (if take (length T) (shape a) \<noteq> T then Inl IndexError
      else
        (let rest = drop (length T) (shape a);
             block = prod_list rest;
             sel = filter (\<lambda>p. b ! p) [0..<length b]
         in Inr \<lparr>shape = length sel # rest,
                 dat = concat (map (\<lambda>p. take block (drop (p * block) (dat a))) sel)\<rparr>))"

text \<open>\<^verbatim>\<open>m[b] = v\<close> for a boolean array \<open>b\<close> of the shape of \<open>m\<close>.\<close>

definition setitem_bool :: "ndarray \<Rightarrow> bool list \<Rightarrow> float64 \<Rightarrow> ndarray" where
  "setitem_bool m b v = m\<lparr>dat := map (\<lambda>p. if b ! p then v else dat m ! p) [0..<length (dat m)]\<rparr>"

text \<open>\<^verbatim>\<open>np.meshgrid(np.arange(0, n1), np.arange(0, n0))\<close>: the column and the row of every pixel.\<close>

definition np_meshgrid :: "nat \<Rightarrow> nat \<Rightarrow> ndarray \<times> ndarray" where
  "np_meshgrid n1 n0 =
     (\<lparr>shape = [n0, n1], dat = concat (map (\<lambda>r. map (\<lambda>c. Fin (real c)) [0..<n1]) [0..<n0])\<rparr>,
      \<lparr>shape = [n0, n1], dat = concat (map (\<lambda>r. map (\<lambda>c. Fin (real r)) [0..<n1]) [0..<n0])\<rparr>)"

text \<open>\<^verbatim>\<open>a.ravel()\<close>\<close>

definition np_ravel :: "ndarray \<Rightarrow> ndarray" where
  "np_ravel a = \<lparr>shape = [length (dat a)], dat = dat a\<rparr>"

section \<open>\<^verbatim>\<open>functions_misc.py\<close>\<close>

subsection \<open>fmask_snr, fmask_signal\<close>

text \<open>
  \<open>data\<close> is a reference to an array of float64 samples with at least one axis;
  \<open>noise\<close> is a float or a reference to such an array; the thresholds are floats. The
  mask and the clipped data are new arrays.
\<close>

definition fmask_snr ::
  "store \<Rightarrow> addr \<Rightarrow> operand \<Rightarrow> float64 \<Rightarrow> (pyerr + addr \<times> addr) \<times> store" where
  "fmask_snr s data noise snr =
     (let d = cells s data in
      (case np_binop fdiv d (operand_val s noise) of
         Inl e \<Rightarrow> (Inl e, s)
       | Inr data_snr \<Rightarrow>
          (let mask0 = np_ones (shape d);
               low_snr = np_where (shape data_snr) (map (\<lambda>q. flt q snr) (dat data_snr))
           in (case setitem_where mask0 low_snr NaN of
                 Inl e \<Rightarrow> (Inl e, s)
               | Inr msk \<Rightarrow>
                  (case np_binop fmul d msk of
                     Inl e \<Rightarrow> (Inl e, s)
                   | Inr data_clean \<Rightarrow>
                      (let (m, s1) = alloc s msk;
                           (c, s2) = alloc s1 data_clean
                       in (Inr (m, c), s2)))))))"

definition fmask_signal ::
  "store \<Rightarrow> addr \<Rightarrow> float64 \<Rightarrow> (pyerr + addr \<times> addr) \<times> store" where
  "fmask_signal s data signal =
     (let d = cells s data;
          mask0 = np_ones (shape d);
          low_signal = np_where (shape d) (map (\<lambda>x. flt x signal) (dat d))
      in (case setitem_where mask0 low_signal NaN of
            Inl e \<Rightarrow> (Inl e, s)
          | Inr msk \<Rightarrow>
             (case np_binop fmul d msk of
                Inl e \<Rightarrow> (Inl e, s)
              | Inr data_clean \<Rightarrow>
                 (let (m, s1) = alloc s msk;
                      (c, s2) = alloc s1 data_clean
                  in (Inr (m, c), s2)))))"

subsection \<open>fmaptheta_halfpolar\<close>

text \<open>
  The function subtracts in place, through the reference it was given, and returns that
  same reference. With \<^verbatim>\<open>deg=False\<close> the thresholds in the code are \<^verbatim>\<open>1.\<close> and
  \<^verbatim>\<open>2.\<close>; with \<^verbatim>\<open>deg=True\<close> they are \<^verbatim>\<open>180.\<close> and \<^verbatim>\<open>360.\<close>.
\<close>

definition fmaptheta_halfpolar :: "store \<Rightarrow> addr \<Rightarrow> bool \<Rightarrow> addr \<times> store" where
  "fmaptheta_halfpolar s angles deg =
     (if \<not> deg then
        let s1 = put s angles
                   (isub_masked (\<lambda>x. fge x (Fin 1) \<and> fne x (Fin 2)) (Fin 1) (cells s angles));
            s2 = put s1 angles (isub_masked (\<lambda>x. feq x (Fin 2)) (Fin 2) (cells s1 angles))
        in (angles, s2)
      else
        let s1 = put s angles
                   (isub_masked (\<lambda>x. fge x (Fin 180) \<and> fne x (Fin 360)) (Fin 180) (cells s angles));
            s2 = put s1 angles (isub_masked (\<lambda>x. feq x (Fin 360)) (Fin 360) (cells s1 angles))
        in (angles, s2))"


subsection \<open>fconvolve\<close>

text \<open>\<^verbatim>\<open>2.*np.sqrt(2.*np.log(2.))\<close>, the ratio of a Gaussian's FWHM to its sigma.\<close>

definition fwhm_factor :: float64 where
  "fwhm_factor = fmul (Fin 2) (fsqrt (fmul (Fin 2) (Fin (ln 2))))"

text \<open>Lines 27 to 33: the size of the kernel in pixels.\<close>

definition fconvolve_kernelsize :: "float64 \<Rightarrow> float64 \<Rightarrow> header \<Rightarrow> pyerr + float64" where
  "fconvolve_kernelsize oldres newres hdr =
     (let oldres_sigma = fdiv oldres fwhm_factor;
          newres_sigma = fdiv newres fwhm_factor;
          kernel_arcmin = fsqrt (fsub (fpow2 newres_sigma) (fpow2 oldres_sigma))
      in (case getitem hdr ''CDELT2'' of
            Inl e \<Rightarrow> Inl e
          | Inr v \<Rightarrow>
             (case hval_real v of
                Inl e \<Rightarrow> Inl e
              | Inr cdelt2 \<Rightarrow>
                 (let pixelsize = fmul (Fin cdelt2) (Fin 60)
                  in Inr (fdiv kernel_arcmin pixelsize)))))"

text \<open>
  The scipy and astropy routines the function calls are parameters: the Gaussian window
  \<^verbatim>\<open>signal.gaussian(M, std)\<close> and the two convolutions, which may raise.
\<close>

record convlib =
  gaussian :: "nat \<Rightarrow> float64 \<Rightarrow> float64 list"
  fftconvolve :: "ndarray \<Rightarrow> ndarray \<Rightarrow> pyerr + ndarray"
  convolve_fft :: "ndarray \<Rightarrow> ndarray \<Rightarrow> pyerr + ndarray"

definition np_outer :: "float64 list \<Rightarrow> float64 list \<Rightarrow> ndarray" where
  "np_outer xs ys =
     \<lparr>shape = [length xs, length ys], dat = concat (map (\<lambda>x. map (\<lambda>y. fmul x y) ys) xs)\<rparr>"

definition np_sum :: "ndarray \<Rightarrow> float64" where
  "np_sum a = foldl fadd (Fin 0) (dat a)"

text \<open>\<^verbatim>\<open>data[np.isnan(data)] = 0.0\<close>\<close>

definition nan_to_zero :: "ndarray \<Rightarrow> ndarray" where
  "nan_to_zero a = a\<lparr>dat := map (\<lambda>x. if isnan x then Fin 0 else x) (dat a)\<rparr>"

text \<open>
  Lines 34 to 49: the kernel, and the convolution by the chosen method. A method that is
  neither \<^verbatim>\<open>"scipy"\<close> nor \<^verbatim>\<open>"astropy"\<close> leaves \<^verbatim>\<open>data_smoothed\<close> unbound at the
  \<^verbatim>\<open>return\<close>.
\<close>

definition fconvolve_smooth ::
  "convlib \<Rightarrow> store \<Rightarrow> float64 \<Rightarrow> addr \<Rightarrow> string \<Rightarrow> (pyerr + addr) \<times> store" where
  "fconvolve_smooth lib s kernelsize data method =
     (let d = cells s data in
      if length (shape d) < 2 then (Inl IndexError, s)
      else
        (let data_size_x = shape d ! 0;
             data_size_y = shape d ! 1;
             kernel_x = gaussian lib data_size_x kernelsize;
             kernel_y = gaussian lib data_size_y kernelsize;
             kernel = np_outer kernel_x kernel_y;
             total = np_sum kernel;
             kernel_norm = kernel\<lparr>dat := map (\<lambda>x. fdiv x total) (dat kernel)\<rparr>
         in if method = ''scipy'' then
              (let s1 = put s data (nan_to_zero d) in
               (case fftconvolve lib (cells s1 data) kernel_norm of
                  Inl e \<Rightarrow> (Inl e, s1)
                | Inr data_smoothed \<Rightarrow>
                   (let (r, s2) = alloc s1 data_smoothed in (Inr r, s2))))
            else if method = ''astropy'' then
              (case convolve_fft lib d kernel_norm of
                 Inl e \<Rightarrow> (Inl e, s)
               | Inr data_smoothed \<Rightarrow>
                  (let (r, s2) = alloc s data_smoothed in (Inr r, s2)))
            else (Inl UnboundLocalError, s)))"

text \<open>\<open>data\<close> and \<open>header\<close> are references to the image and to its header.\<close>

definition fconvolve ::
  "convlib \<Rightarrow> store \<Rightarrow> float64 \<Rightarrow> float64 \<Rightarrow> addr \<Rightarrow> addr \<Rightarrow> string
     \<Rightarrow> (pyerr + addr) \<times> store" where
  "fconvolve lib s oldres newres data header method =
     (case fconvolve_kernelsize oldres newres (headers s header) of
        Inl e \<Rightarrow> (Inl e, s)
      | Inr kernelsize \<Rightarrow> fconvolve_smooth lib s kernelsize data method)"

subsection \<open>fgradient\<close>

text \<open>
  \<^verbatim>\<open>np.gradient\<close> is a parameter: it gives the sequence of arrays its result unpacks
  to, or raises. The assignment \<^verbatim>\<open>grad_y,grad_x = ...\<close> needs exactly two of them.
  \<open>img\<close> is the reference to the image.
\<close>

definition fgradient ::
  "(ndarray \<Rightarrow> pyerr + ndarray list) \<Rightarrow> store \<Rightarrow> addr \<Rightarrow> (pyerr + addr) \<times> store" where
  "fgradient np_gradient s img =
     (case np_gradient (cells s img) of
        Inl e \<Rightarrow> (Inl e, s)
      | Inr gs \<Rightarrow>
         (case gs of
            [grad_y, grad_x] \<Rightarrow>
              (case np_binop fadd (np_map fpow2 grad_x) (np_map fpow2 grad_y) of
                 Inl e \<Rightarrow> (Inl e, s)
               | Inr sq \<Rightarrow> (let (r, s1) = alloc s (np_map fsqrt sq) in (Inr r, s1)))
          | _ \<Rightarrow> (Inl ValueError, s)))"

subsection \<open>fmaskinterp\<close>

text \<open>
  \<^verbatim>\<open>interpolate.griddata\<close> is a parameter, given the two coordinate arrays of the valid
  pixels, their values, and the two grids to interpolate on. \<open>img\<close> and \<open>msk\<close> are
  the references to the image and to the mask.
\<close>

type_synonym griddata =
  "ndarray \<Rightarrow> ndarray \<Rightarrow> ndarray \<Rightarrow> ndarray \<Rightarrow> ndarray \<Rightarrow> pyerr + ndarray"

definition fmaskinterp ::
  "griddata \<Rightarrow> store \<Rightarrow> addr \<Rightarrow> addr \<Rightarrow> (pyerr + addr) \<times> store" where
  "fmaskinterp griddata s img msk =
     (let im = cells s img in
      if length (shape im) < 2 then (Inl IndexError, s)
      else
        (let (xx, yy) = np_meshgrid (shape im ! 1) (shape im ! 0);
             mask_invalid = map isnan (dat (cells s msk));
             valid = map Not mask_invalid;
             T = shape (cells s msk)
         in (case np_take_bool xx T valid of
               Inl e \<Rightarrow> (Inl e, s)
             | Inr x1 \<Rightarrow>
            (case np_take_bool yy T valid of
               Inl e \<Rightarrow> (Inl e, s)
             | Inr y1 \<Rightarrow>
            (case np_take_bool im T valid of
               Inl e \<Rightarrow> (Inl e, s)
             | Inr image_new \<Rightarrow>
            (case griddata x1 y1 (np_ravel image_new) xx yy of
               Inl e \<Rightarrow> (Inl e, s)
             | Inr image_interp \<Rightarrow>
                (let (r, s1) = alloc s image_interp in (Inr r, s1))))))))"

section \<open>\<^verbatim>\<open>functions_fits.py\<close>\<close>

text \<open>
  The functions of this file take paths, except \<^verbatim>\<open>fhighlatmask\<close>, which takes a
  coordinate grid. A FITS file holds an array and a header;
  \<^verbatim>\<open>fits.getdata\<close> and \<^verbatim>\<open>fits.getheader\<close> read a path and fail on a missing
  file. \<^verbatim>\<open>fits.writeto\<close> is a parameter.
\<close>

record fitsfile =
  fdata :: ndarray
  fheader :: header

type_synonym filesys = "string \<rightharpoonup> fitsfile"

type_synonym writer = "filesys \<Rightarrow> string \<Rightarrow> ndarray \<Rightarrow> header \<Rightarrow> pyerr + filesys"

definition getdata :: "filesys \<Rightarrow> string \<Rightarrow> pyerr + ndarray \<times> header" where
  "getdata fs path = (case fs path of None \<Rightarrow> Inl IOError | Some f \<Rightarrow> Inr (fdata f, fheader f))"

definition getheader :: "filesys \<Rightarrow> string \<Rightarrow> pyerr + header" where
  "getheader fs path = (case fs path of None \<Rightarrow> Inl IOError | Some f \<Rightarrow> Inr (fheader f))"

subsection \<open>ffreqaxis\<close>

text \<open>
  A number in a numpy computation is a 64-bit integer, numpy's default integer on 64-bit
  Linux and macOS, or a float. An operation on two integers is done on 64 bits and wraps
  around without an error; an operation with a float on either side is done on floats,
  the integer taken at its signed value.
\<close>

datatype npnum = Int64 "64 word" | Float64 real

fun npnum_real :: "npnum \<Rightarrow> real" where
  "npnum_real (Int64 w) = real_of_int (sint w)"
| "npnum_real (Float64 r) = r"

fun np_add :: "npnum \<Rightarrow> npnum \<Rightarrow> npnum" where
  "np_add (Int64 a) (Int64 b) = Int64 (a + b)"
| "np_add x y = Float64 (npnum_real x + npnum_real y)"

fun np_sub :: "npnum \<Rightarrow> npnum \<Rightarrow> npnum" where
  "np_sub (Int64 a) (Int64 b) = Int64 (a - b)"
| "np_sub x y = Float64 (npnum_real x - npnum_real y)"

fun np_mul :: "npnum \<Rightarrow> npnum \<Rightarrow> npnum" where
  "np_mul (Int64 a) (Int64 b) = Int64 (a * b)"
| "np_mul x y = Float64 (npnum_real x * npnum_real y)"

text \<open>A header value as an operand of array arithmetic.\<close>

fun hval_npnum :: "hval \<Rightarrow> pyerr + npnum" where
  "hval_npnum (IntV i) = Inr (Int64 i)"
| "hval_npnum (FloatV r) = Inr (Float64 r)"
| "hval_npnum (StrV _) = Inl TypeError"

text \<open>
  \<^verbatim>\<open>np.arange(n)\<close>: the integers from 0 below \<open>n\<close>, none when \<open>n \<le> 0\<close>; for a
  float \<open>n\<close>, \<open>ceil n\<close> floats.
\<close>

fun np_arange :: "hval \<Rightarrow> pyerr + npnum list" where
  "np_arange (IntV n) = Inr (map (\<lambda>i. Int64 (of_nat i)) [0..<nat (sint n)])"
| "np_arange (FloatV x) = Inr (map (\<lambda>i. Float64 (real i)) [0..<nat \<lceil>x\<rceil>])"
| "np_arange (StrV _) = Inl TypeError"

definition ffreqaxis :: "filesys \<Rightarrow> string \<Rightarrow> pyerr + npnum list" where
  "ffreqaxis fs file =
     (case getheader fs file of
        Inl e \<Rightarrow> Inl e
      | Inr hdr \<Rightarrow>
     (case getitem hdr ''CRVAL3'' of
        Inl e \<Rightarrow> Inl e
      | Inr crval3 \<Rightarrow>
     (case getitem hdr ''CRPIX3'' of
        Inl e \<Rightarrow> Inl e
      | Inr crpix3 \<Rightarrow>
     (case getitem hdr ''CDELT3'' of
        Inl e \<Rightarrow> Inl e
      | Inr cdelt3 \<Rightarrow>
     (case getitem hdr ''NAXIS3'' of
        Inl e \<Rightarrow> Inl e
      | Inr naxis3 \<Rightarrow>
     (case np_arange naxis3 of
        Inl e \<Rightarrow> Inl e
      | Inr pixels0 \<Rightarrow>
     (let freqpixels = map (\<lambda>x. np_add x (Int64 1)) pixels0 in
      (case hval_npnum crpix3 of
         Inl e \<Rightarrow> Inl e
       | Inr crpix \<Rightarrow>
      (case hval_npnum cdelt3 of
         Inl e \<Rightarrow> Inl e
       | Inr cdelt \<Rightarrow>
      (case hval_npnum crval3 of
         Inl e \<Rightarrow> Inl e
       | Inr crval \<Rightarrow>
          Inr (map (\<lambda>x. np_add crval (np_mul (np_sub x crpix) cdelt)) freqpixels)))))))))))"

text \<open>
  The range of a 64-bit integer, and the headers for which no integer step of the
  computation of sample \<open>i\<close> leaves it: the difference \<open>(i+1) - CRPIX3\<close> when
  \<^verbatim>\<open>CRPIX3\<close> is an integer, its product with \<^verbatim>\<open>CDELT3\<close> when that is an integer
  too, and the sum with \<^verbatim>\<open>CRVAL3\<close> when all three are integers.
\<close>

definition in_int64 :: "int \<Rightarrow> bool" where
  "in_int64 k = (- (2 ^ 63) \<le> k \<and> k < 2 ^ 63)"

fun int64_exact :: "hval \<Rightarrow> hval \<Rightarrow> hval \<Rightarrow> nat \<Rightarrow> bool" where
  "int64_exact (IntV p) (IntV d) (IntV v) i =
     (in_int64 (int i + 1 - sint p) \<and> in_int64 ((int i + 1 - sint p) * sint d) \<and>
      in_int64 (sint v + (int i + 1 - sint p) * sint d))"
| "int64_exact (IntV p) (IntV d) v i =
     (in_int64 (int i + 1 - sint p) \<and> in_int64 ((int i + 1 - sint p) * sint d))"
| "int64_exact (IntV p) d v i = in_int64 (int i + 1 - sint p)"
| "int64_exact p d v i = True"

text \<open>Python's \<^verbatim>\<open>xs[i]\<close> for an integer \<open>i\<close>: a negative index counts from the end.\<close>

definition py_index :: "'a list \<Rightarrow> int \<Rightarrow> pyerr + 'a" where
  "py_index xs i =
     (if 0 \<le> i \<and> i < int (length xs) then Inr (xs ! nat i)
      else if i < 0 \<and> - int (length xs) \<le> i then Inr (xs ! nat (int (length xs) + i))
      else Inl IndexError)"

subsection \<open>fhighlatmask\<close>

text \<open>
  A coordinate grid gives its longitudes and latitudes in degrees as two arrays.
  \<^verbatim>\<open>blim\<close> is a float.
\<close>

record coordgrid =
  lon :: addr
  lat :: addr

definition fhighlatmask :: "store \<Rightarrow> coordgrid \<Rightarrow> float64 \<Rightarrow> addr \<times> store" where
  "fhighlatmask s lb_coords blim =
     (let lgrid = cells s (lon lb_coords);
          bgrid = cells s (lat lb_coords);
          mask0 = np_ones (shape bgrid);
          ii = map (\<lambda>x. flt (fabs x) blim) (dat bgrid);
          msk = setitem_bool mask0 ii NaN
      in alloc s msk)"

subsection \<open>fheader_3Dto2D\<close>

definition keys_3D :: "string list" where
  "keys_3D = [''NAXIS3'', ''CDELT3'', ''CROTA3'', ''CRPIX3'', ''CRVAL3'', ''CTYPE3'']"

text \<open>\<^verbatim>\<open>del header[key]\<close> raises KeyError on an absent keyword.\<close>

definition delitem :: "header \<Rightarrow> string \<Rightarrow> pyerr + header" where
  "delitem h key = (if h key = None then Inl (KeyError key) else Inr (h(key := None)))"

text \<open>
  The loop over \<^verbatim>\<open>keys_3D\<close>. \<open>header_keys\<close> is the list of keywords taken before the
  header is changed, kept here as the header of that moment: a keyword is in the list when
  that header has a value for it.
\<close>

fun delete_keys :: "header \<Rightarrow> string list \<Rightarrow> header \<Rightarrow> pyerr + header" where
  "delete_keys header_keys [] h = Inr h"
| "delete_keys header_keys (key # keys) h =
     (if header_keys key \<noteq> None then
        (case delitem h key of
           Inl e \<Rightarrow> Inl e
         | Inr h' \<Rightarrow> delete_keys header_keys keys h')
      else delete_keys header_keys keys h)"

definition fheader_3Dto2D ::
  "writer \<Rightarrow> filesys \<Rightarrow> string \<Rightarrow> string \<Rightarrow> bool \<Rightarrow> (pyerr + header) \<times> filesys" where
  "fheader_3Dto2D writeto fs filedir_in filedir_out write =
     (case getdata fs filedir_in of
        Inl e \<Rightarrow> (Inl e, fs)
      | Inr (data, hdr) \<Rightarrow>
         (let header_keys = hdr;
              hdr1 = hdr(''NAXIS'' \<mapsto> IntV 2)
          in (case delete_keys header_keys keys_3D hdr1 of
                Inl e \<Rightarrow> (Inl e, fs)
              | Inr hdr2 \<Rightarrow>
                 if write then
                   (case writeto fs filedir_out data hdr2 of
                      Inl e \<Rightarrow> (Inl e, fs)
                    | Inr fs' \<Rightarrow> (Inr hdr2, fs'))
                 else (Inr hdr2, fs))))"

subsection \<open>fcubeavg\<close>

text \<open>
  \<^verbatim>\<open>np.nanmean(a, axis=0)\<close> as numpy computes it: NaN samples are replaced by 0 and
  summed, and the sum is divided by the number of samples that are not NaN; where that
  number is 0 the quotient \<open>0/0\<close> is NaN.
\<close>

definition nanmean1 :: "float64 list \<Rightarrow> float64" where
  "nanmean1 xs =
     fdiv (foldl fadd (Fin 0) (map (\<lambda>x. if isnan x then Fin 0 else x) xs))
          (Fin (real (length (filter (\<lambda>x. \<not> isnan x) xs))))"

text \<open>The samples along axis 0 at the flat position \<open>q\<close> of the remaining axes.\<close>

definition axis0_samples :: "ndarray \<Rightarrow> nat \<Rightarrow> float64 list" where
  "axis0_samples a q =
     map (\<lambda>k. dat a ! (k * prod_list (tl (shape a)) + q)) [0..<hd (shape a)]"

definition np_nanmean_axis0 :: "ndarray \<Rightarrow> pyerr + ndarray" where
  "np_nanmean_axis0 a =
     (if shape a = [] then Inl ValueError
      else Inr \<lparr>shape = tl (shape a),
                dat = map (\<lambda>q. nanmean1 (axis0_samples a q)) [0..<prod_list (tl (shape a))]\<rparr>)"

definition fcubeavg ::
  "writer \<Rightarrow> filesys \<Rightarrow> string \<Rightarrow> string \<Rightarrow> bool
     \<Rightarrow> (pyerr + ndarray \<times> header) \<times> filesys" where
  "fcubeavg writeto fs filedir_in filedir_out write =
     (case getdata fs filedir_in of
        Inl e \<Rightarrow> (Inl e, fs)
      | Inr (data_cube, header_cube) \<Rightarrow>
         (case np_nanmean_axis0 data_cube of
            Inl e \<Rightarrow> (Inl e, fs)
          | Inr data_avg \<Rightarrow>
             (case fheader_3Dto2D writeto fs filedir_in ''.'' False of
                (Inl e, fs1) \<Rightarrow> (Inl e, fs1)
              | (Inr header_avg, fs1) \<Rightarrow>
                 if write then
                   (case writeto fs1 filedir_out data_avg header_avg of
                      Inl e \<Rightarrow> (Inl e, fs1)
                    | Inr fs2 \<Rightarrow> (Inr (data_avg, header_avg), fs2))
                 else (Inr (data_avg, header_avg), fs1))))"


section \<open>Concrete inputs\<close>

text \<open>A one-dimensional array, and a store whose only live reference, 0, holds an array.\<close>

definition vector :: "float64 list \<Rightarrow> ndarray" where
  "vector xs = \<lparr>shape = [length xs], dat = xs\<rparr>"

definition single_store :: "ndarray \<Rightarrow> store" where
  "single_store a =
     \<lparr>cells = (\<lambda>_. a), window = (\<lambda>r. (r, [0..<length (dat a)])), headers = (\<lambda>_. Map.empty),
      nxt = 1\<rparr>"

text \<open>A store with two live references, 0 and 1.\<close>

definition pair_store :: "ndarray \<Rightarrow> ndarray \<Rightarrow> store" where
  "pair_store a b =
     \<lparr>cells = (\<lambda>r. if r = 0 then a else b),
      window = (\<lambda>r. (r, [0..<length (dat (if r = 0 then a else b))])),
      headers = (\<lambda>_. Map.empty), nxt = 2\<rparr>"

text \<open>
  A stand-in for the library routines in concrete runs: a window of ones and convolutions
  that hand back their first argument; a gradient that hands back its argument twice; an
  interpolation that hands back the first grid. A writer that always fails.
\<close>

definition gradient_stub :: "ndarray \<Rightarrow> pyerr + ndarray list" where
  "gradient_stub a = Inr [a, a]"

definition griddata_stub :: griddata where
  "griddata_stub x1 y1 v xx yy = Inr xx"

definition stub_lib :: convlib where
  "stub_lib = \<lparr>gaussian = (\<lambda>M std. replicate M (Fin 1)),
               fftconvolve = (\<lambda>a k. Inr a),
               convolve_fft = (\<lambda>a k. Inr a)\<rparr>"

definition no_writer :: writer where
  "no_writer fs path a h = Inl IOError"

text \<open>A file system with the single file \<^verbatim>\<open>cube.fits\<close>.\<close>

definition one_file :: "ndarray \<Rightarrow> header \<Rightarrow> filesys" where
  "one_file a h = [''cube.fits'' \<mapsto> \<lparr>fdata = a, fheader = h\<rparr>]"

text \<open>
  A header with a pixel size; the header of a cube of three planes with a unit on axis 3;
  and a fully populated header of such a cube, with the reference pixel of axis 3 left open.
\<close>

definition header_cdelt2 :: header where
  "header_cdelt2 = [''CDELT2'' \<mapsto> FloatV 1]"

text \<open>
  A store with an image at reference 0 and its header at reference 0. A store with a cube
  of two planes at reference 0 and, at reference 1, the first plane of the cube as numpy
  makes it by \<^verbatim>\<open>cube[0]\<close>: an array on the block of the cube, at its first two offsets.
\<close>

definition image_store :: "ndarray \<Rightarrow> header \<Rightarrow> store" where
  "image_store a h = (single_store a)\<lparr>headers := (\<lambda>_. h)\<rparr>"

definition cube_and_plane :: store where
  "cube_and_plane =
     \<lparr>cells = (\<lambda>r. if r = 0 then \<lparr>shape = [2, 1, 2], dat = [NaN, Fin 3, Fin 4, NaN]\<rparr>
                    else if r = 1 then \<lparr>shape = [1, 2], dat = [NaN, Fin 3]\<rparr>
                    else \<lparr>shape = [0], dat = []\<rparr>),
      window = (\<lambda>r. if r = 0 then (0, [0, 1, 2, 3])
                     else if r = 1 then (0, [0, 1])
                     else (r, [])),
      headers = (\<lambda>_. header_cdelt2),
      nxt = 2\<rparr>"

text \<open>
  A header with integer values on axis 3 whose step is so large that the third sample of
  the axis is beyond the 64-bit range.
\<close>

definition header_wide :: header where
  "header_wide =
     [''NAXIS'' \<mapsto> IntV 3, ''NAXIS3'' \<mapsto> IntV 3, ''CRPIX3'' \<mapsto> IntV 1,
      ''CRVAL3'' \<mapsto> IntV 0, ''CDELT3'' \<mapsto> IntV 5000000000000000000]"

definition cube_header :: header where
  "cube_header = [''NAXIS'' \<mapsto> IntV 3, ''NAXIS3'' \<mapsto> IntV 3, ''CTYPE3'' \<mapsto> StrV ''FREQ'',
                  ''CUNIT3'' \<mapsto> StrV ''Hz'']"

definition header_axis :: "64 word \<Rightarrow> header" where
  "header_axis crpix3 =
     [''NAXIS'' \<mapsto> IntV 3,
      ''NAXIS1'' \<mapsto> IntV 2, ''CTYPE1'' \<mapsto> StrV ''RA---TAN'', ''CRPIX1'' \<mapsto> FloatV 1,
      ''CRVAL1'' \<mapsto> FloatV 0, ''CDELT1'' \<mapsto> FloatV (- 1),
      ''NAXIS2'' \<mapsto> IntV 1, ''CTYPE2'' \<mapsto> StrV ''DEC--TAN'', ''CRPIX2'' \<mapsto> FloatV 1,
      ''CRVAL2'' \<mapsto> FloatV 0, ''CDELT2'' \<mapsto> FloatV 1,
      ''NAXIS3'' \<mapsto> IntV 3, ''CTYPE3'' \<mapsto> StrV ''FREQ'', ''CRPIX3'' \<mapsto> IntV crpix3,
      ''CRVAL3'' \<mapsto> FloatV 10, ''CDELT3'' \<mapsto> FloatV 1]"

text \<open>A cube of shape (3, 1, 2) whose two pixels both hold the samples 1, NaN, 3 along axis 0.\<close>

definition cube_1_nan_3 :: ndarray where
  "cube_1_nan_3 = \<lparr>shape = [3, 1, 2], dat = [Fin 1, Fin 1, NaN, NaN, Fin 3, Fin 3]\<rparr>"

section \<open>Properties of the array primitives\<close>

lemma unravel_length: "length (unravel S p) = length S"
  by (induction S arbitrary: p) simp_all

lemma unravel_bounds: "p < prod_list S \<Longrightarrow> list_all2 (<) (unravel S p) S"
proof (induction S arbitrary: p)
  case Nil
  then show ?case by simp
next
  case (Cons d ds)
  have pos: "0 < prod_list ds"
    using Cons.prems by (cases "prod_list ds = 0") simp_all
  have "p div prod_list ds < d"
    using Cons.prems pos by (simp add: less_mult_imp_div_less mult.commute)
  moreover have "list_all2 (<) (unravel ds (p mod prod_list ds)) ds"
    using Cons.IH pos by simp
  ultimately show ?case by simp
qed

lemma ravel_unravel: "p < prod_list S \<Longrightarrow> ravel S (unravel S p) = p"
proof (induction S arbitrary: p)
  case Nil
  then show ?case by simp
next
  case (Cons d ds)
  have pos: "0 < prod_list ds"
    using Cons.prems by (cases "prod_list ds = 0") simp_all
  have "ravel ds (unravel ds (p mod prod_list ds)) = p mod prod_list ds"
    using Cons.IH pos by simp
  then show ?case by simp
qed

lemma unravel_inj:
  assumes "p < prod_list S" "q < prod_list S" "unravel S p = unravel S q"
  shows "p = q"
  using assms ravel_unravel by metis

lemma src_coords_same:
  "list_all2 (<) cs S \<Longrightarrow> src_coords S cs = cs"
proof -
  assume a: "list_all2 (<) cs S"
  then have len: "length cs = length S" by (rule list_all2_lengthD)
  have "map2 (\<lambda>d c. if d = 1 then 0 else c) S cs = cs"
    using a
  proof (induction cs S rule: list_all2_induct)
    case Nil
    then show ?case by simp
  next
    case (Cons c cs d ds)
    then show ?case by auto
  qed
  then show ?thesis by (simp add: src_coords_def len)
qed

lemma broadcast_to_same:
  assumes "wf_array a"
  shows "broadcast_to a (shape a) = dat a"
proof -
  have "\<And>p. p < prod_list (shape a) \<Longrightarrow>
          ravel (shape a) (src_coords (shape a) (unravel (shape a) p)) = p"
    by (simp add: src_coords_same unravel_bounds ravel_unravel)
  then have "broadcast_to a (shape a) = map (\<lambda>p. dat a ! p) [0..<prod_list (shape a)]"
    by (simp add: broadcast_to_def)
  also have "\<dots> = dat a"
    using assms map_nth [of "dat a"] by (simp add: wf_array_def)
  finally show ?thesis .
qed

lemma broadcast_to_scalar:
  "broadcast_to (scalar_array v) R = replicate (prod_list R) v"
  by (simp add: broadcast_to_def scalar_array_def src_coords_def map_replicate_const)

lemma length_broadcast_to: "length (broadcast_to a R) = prod_list R"
  by (simp add: broadcast_to_def)

lemma bshape_rev_same: "bshape_rev xs xs = Some xs"
  by (induction xs) simp_all

lemma bshape_rev_Nil2: "bshape_rev xs [] = Some xs"
  by (cases xs) simp_all

lemma broadcast_shapes_same: "broadcast_shapes S S = Some S"
  by (simp add: broadcast_shapes_def bshape_rev_same)

lemma broadcast_shapes_scalar: "broadcast_shapes S [] = Some S"
  by (simp add: broadcast_shapes_def bshape_rev_Nil2)

lemma setitem_where_ones:
  assumes "length cond = prod_list S"
  shows "setitem_where (np_ones S) (np_where S cond) v =
           Inr \<lparr>shape = S, dat = map (\<lambda>p. if cond ! p then v else Fin 1) [0..<prod_list S]\<rparr>"
proof -
  have inb: "\<And>q. q < prod_list S \<Longrightarrow> list_all2 (<) (unravel S q) S"
    by (rule unravel_bounds)
  have mem: "\<And>p. p < prod_list S \<Longrightarrow>
               (unravel S p \<in> unravel S ` {x. x < prod_list S \<and> cond ! x}) = (cond ! p)"
    by (auto dest: unravel_inj)
  show ?thesis
    using assms
    by (auto simp: setitem_where_def np_where_def np_ones_def Let_def unravel_length inb mem)
qed

lemma fdiv_one: "fdiv x (Fin 1) = x"
  by (cases x) (simp_all add: inf_of_def)

lemma fmul_one: "fmul x (Fin 1) = x"
  by (cases x) (simp_all add: inf_of_def)

lemma np_binop_bcast:
  assumes "wf_array a" "broadcast_shapes (shape a) (shape b) = Some (shape a)"
  shows "np_binop f a b = Inr \<lparr>shape = shape a, dat = map2 f (dat a) (broadcast_to b (shape a))\<rparr>"
  using assms by (simp add: np_binop_def broadcast_to_same)

lemma np_binop_same:
  assumes "wf_array a" "wf_array b" "shape b = shape a"
  shows "np_binop f a b = Inr \<lparr>shape = shape a, dat = map2 f (dat a) (dat b)\<rparr>"
proof -
  have "broadcast_to b (shape a) = dat b"
    using assms broadcast_to_same [of b] by simp
  then show ?thesis
    using assms np_binop_bcast [of a b f] by (simp add: broadcast_shapes_same)
qed

text \<open>What a masking function returns once the comparison array is known.\<close>

lemma mask_pipeline:
  assumes wf: "wf_array d" and lc: "length cond = prod_list (shape d)"
  shows "(case setitem_where (np_ones (shape d)) (np_where (shape d) cond) NaN of
            Inl e \<Rightarrow> (Inl e, s)
          | Inr msk \<Rightarrow>
             (case np_binop fmul d msk of
                Inl e \<Rightarrow> (Inl e, s)
              | Inr data_clean \<Rightarrow>
                 (let (m, s1) = alloc s msk;
                      (c, s2) = alloc s1 data_clean
                  in (Inr (m, c), s2)))) =
         (let msk = \<lparr>shape = shape d,
                     dat = map (\<lambda>p. if cond ! p then NaN else Fin 1) [0..<prod_list (shape d)]\<rparr>;
              clean = \<lparr>shape = shape d, dat = map2 fmul (dat d) (dat msk)\<rparr>
          in (Inr (nxt s, Suc (nxt s)),
              s\<lparr>cells := ((cells s)(nxt s := msk))(Suc (nxt s) := clean),
                window := ((window s)(nxt s := (nxt s, [0..<length (dat msk)])))
                            (Suc (nxt s) := (Suc (nxt s), [0..<length (dat clean)])),
                nxt := Suc (Suc (nxt s))\<rparr>))"
proof -
  define msk where
    "msk = \<lparr>shape = shape d,
            dat = map (\<lambda>p. if cond ! p then NaN else Fin 1) [0..<prod_list (shape d)]\<rparr>"
  have set: "setitem_where (np_ones (shape d)) (np_where (shape d) cond) NaN = Inr msk"
    using lc by (simp add: setitem_where_ones msk_def)
  have wfm: "wf_array msk" and shm: "shape msk = shape d"
    by (simp_all add: msk_def wf_array_def)
  have mul: "np_binop fmul d msk = Inr \<lparr>shape = shape d, dat = map2 fmul (dat d) (dat msk)\<rparr>"
    using wf wfm shm by (rule np_binop_same)
  show ?thesis
    unfolding set mul sum.case alloc_def msk_def [symmetric] Let_def
    by simp
qed

lemma fmask_snr_eval:
  assumes wf: "wf_array (cells s data)"
    and bc: "broadcast_shapes (shape (cells s data)) (shape (operand_val s noise)) =
               Some (shape (cells s data))"
  shows "fmask_snr s data noise snr =
     (let d = cells s data; S = shape d;
          msk = \<lparr>shape = S,
                 dat = map (\<lambda>p. if flt (fdiv (dat d ! p) (broadcast_to (operand_val s noise) S ! p)) snr
                                then NaN else Fin 1) [0..<prod_list S]\<rparr>;
          clean = \<lparr>shape = S, dat = map2 fmul (dat d) (dat msk)\<rparr>
      in (Inr (nxt s, Suc (nxt s)),
          s\<lparr>cells := ((cells s)(nxt s := msk))(Suc (nxt s) := clean),
            window := ((window s)(nxt s := (nxt s, [0..<length (dat msk)])))
                        (Suc (nxt s) := (Suc (nxt s), [0..<length (dat clean)])),
            nxt := Suc (Suc (nxt s))\<rparr>))"
proof -
  let ?d = "cells s data" and ?S = "shape (cells s data)"
  let ?nb = "broadcast_to (operand_val s noise) ?S"
  define cond where "cond = map (\<lambda>q. flt q snr) (map2 fdiv (dat ?d) ?nb)"
  have len: "length (dat ?d) = prod_list ?S"
    using wf by (simp add: wf_array_def)
  have div: "np_binop fdiv ?d (operand_val s noise) =
               Inr \<lparr>shape = ?S, dat = map2 fdiv (dat ?d) ?nb\<rparr>"
    using wf bc by (rule np_binop_bcast)
  have lc: "length cond = prod_list ?S"
    by (simp add: cond_def len length_broadcast_to)
  have condeq: "map (\<lambda>p. if cond ! p then NaN else Fin 1) [0..<prod_list ?S] =
                map (\<lambda>p. if flt (fdiv (dat ?d ! p) (?nb ! p)) snr then NaN else Fin 1)
                    [0..<prod_list ?S]"
    by (rule map_cong) (simp_all add: cond_def len length_broadcast_to)
  have "fmask_snr s data noise snr =
          (case setitem_where (np_ones ?S) (np_where ?S cond) NaN of
             Inl e \<Rightarrow> (Inl e, s)
           | Inr msk \<Rightarrow>
              (case np_binop fmul ?d msk of
                 Inl e \<Rightarrow> (Inl e, s)
               | Inr data_clean \<Rightarrow>
                  (let (m, s1) = alloc s msk;
                       (c, s2) = alloc s1 data_clean
                   in (Inr (m, c), s2))))"
    by (simp add: fmask_snr_def div Let_def cond_def)
  also have "\<dots> =
         (let msk = \<lparr>shape = ?S,
                     dat = map (\<lambda>p. if cond ! p then NaN else Fin 1) [0..<prod_list ?S]\<rparr>;
              clean = \<lparr>shape = ?S, dat = map2 fmul (dat ?d) (dat msk)\<rparr>
          in (Inr (nxt s, Suc (nxt s)),
              s\<lparr>cells := ((cells s)(nxt s := msk))(Suc (nxt s) := clean),
                window := ((window s)(nxt s := (nxt s, [0..<length (dat msk)])))
                            (Suc (nxt s) := (Suc (nxt s), [0..<length (dat clean)])),
                nxt := Suc (Suc (nxt s))\<rparr>))"
    by (rule mask_pipeline [OF wf lc])
  finally show ?thesis
    by (simp add: condeq Let_def)
qed

lemma fmask_signal_eval:
  assumes wf: "wf_array (cells s data)"
  shows "fmask_signal s data signal =
     (let d = cells s data; S = shape d;
          msk = \<lparr>shape = S,
                 dat = map (\<lambda>p. if flt (dat d ! p) signal then NaN else Fin 1) [0..<prod_list S]\<rparr>;
          clean = \<lparr>shape = S, dat = map2 fmul (dat d) (dat msk)\<rparr>
      in (Inr (nxt s, Suc (nxt s)),
          s\<lparr>cells := ((cells s)(nxt s := msk))(Suc (nxt s) := clean),
            window := ((window s)(nxt s := (nxt s, [0..<length (dat msk)])))
                        (Suc (nxt s) := (Suc (nxt s), [0..<length (dat clean)])),
            nxt := Suc (Suc (nxt s))\<rparr>))"
proof -
  let ?d = "cells s data" and ?S = "shape (cells s data)"
  define cond where "cond = map (\<lambda>x. flt x signal) (dat ?d)"
  have len: "length (dat ?d) = prod_list ?S"
    using wf by (simp add: wf_array_def)
  have lc: "length cond = prod_list ?S"
    by (simp add: cond_def len)
  have condeq: "map (\<lambda>p. if cond ! p then NaN else Fin 1) [0..<prod_list ?S] =
                map (\<lambda>p. if flt (dat ?d ! p) signal then NaN else Fin 1) [0..<prod_list ?S]"
    by (rule map_cong) (simp_all add: cond_def len)
  have "fmask_signal s data signal =
          (case setitem_where (np_ones ?S) (np_where ?S cond) NaN of
             Inl e \<Rightarrow> (Inl e, s)
           | Inr msk \<Rightarrow>
              (case np_binop fmul ?d msk of
                 Inl e \<Rightarrow> (Inl e, s)
               | Inr data_clean \<Rightarrow>
                  (let (m, s1) = alloc s msk;
                       (c, s2) = alloc s1 data_clean
                   in (Inr (m, c), s2))))"
    by (simp add: fmask_signal_def Let_def cond_def)
  also have "\<dots> =
         (let msk = \<lparr>shape = ?S,
                     dat = map (\<lambda>p. if cond ! p then NaN else Fin 1) [0..<prod_list ?S]\<rparr>;
              clean = \<lparr>shape = ?S, dat = map2 fmul (dat ?d) (dat msk)\<rparr>
          in (Inr (nxt s, Suc (nxt s)),
              s\<lparr>cells := ((cells s)(nxt s := msk))(Suc (nxt s) := clean),
                window := ((window s)(nxt s := (nxt s, [0..<length (dat msk)])))
                            (Suc (nxt s) := (Suc (nxt s), [0..<length (dat clean)])),
                nxt := Suc (Suc (nxt s))\<rparr>))"
    by (rule mask_pipeline [OF wf lc])
  finally show ?thesis
    by (simp add: condeq Let_def)
qed

section \<open>fmaptheta_halfpolar\<close>

lemma fmaptheta_halfpolar_ref: "fst (fmaptheta_halfpolar s a deg) = a"
  by (simp add: fmaptheta_halfpolar_def Let_def)

lemma fmaptheta_halfpolar_rad:
  "dat (cells (snd (fmaptheta_halfpolar s a False)) a) =
     map (\<lambda>x. let y = (if fge x (Fin 1) \<and> fne x (Fin 2) then fsub x (Fin 1) else x)
               in if feq y (Fin 2) then fsub y (Fin 2) else y) (dat (cells s a))"
  by (simp add: fmaptheta_halfpolar_def Let_def put_def isub_masked_def)

lemma fmaptheta_halfpolar_deg:
  "dat (cells (snd (fmaptheta_halfpolar s a True)) a) =
     map (\<lambda>x. let y = (if fge x (Fin 180) \<and> fne x (Fin 360) then fsub x (Fin 180) else x)
               in if feq y (Fin 360) then fsub y (Fin 360) else y) (dat (cells s a))"
  by (simp add: fmaptheta_halfpolar_def Let_def put_def isub_masked_def)


text \<open>
  What the two masked subtractions do to a finite angle: the first brings an angle of 3
  (540 with \<^verbatim>\<open>deg=True\<close>) to 2 (360), which the second then sends to 0.
\<close>

lemma fmaptheta_halfpolar_rad_finite:
  assumes "p < length (dat (cells s a))" "dat (cells s a) ! p = Fin x"
  shows "dat (cells (snd (fmaptheta_halfpolar s a False)) a) ! p =
           (if x = 2 \<or> x = 3 then Fin 0 else if 1 \<le> x then Fin (x - 1) else Fin x)"
  using assms by (auto simp: fmaptheta_halfpolar_rad fge_def fne_def feq_def fsub_def Let_def)

lemma fmaptheta_halfpolar_deg_finite:
  assumes "p < length (dat (cells s a))" "dat (cells s a) ! p = Fin x"
  shows "dat (cells (snd (fmaptheta_halfpolar s a True)) a) ! p =
           (if x = 360 \<or> x = 540 then Fin 0 else if 180 \<le> x then Fin (x - 180) else Fin x)"
  using assms by (auto simp: fmaptheta_halfpolar_deg fge_def fne_def feq_def fsub_def Let_def)

text \<open>
  Claim C9. With \<^verbatim>\<open>deg=False\<close>, an angle equal to 2.0 is mapped to 0.0, an angle of 1.5
  to 0.5, and an angle of 0.5 is returned unchanged, at every position of every array; the
  array returned is the array given.
\<close>

theorem fmaptheta_halfpolar_normalized_examples:
  assumes "p < length (dat (cells s a))"
  shows "fst (fmaptheta_halfpolar s a False) = a \<and>
         (dat (cells s a) ! p = Fin 2 \<longrightarrow>
            dat (cells (snd (fmaptheta_halfpolar s a False)) a) ! p = Fin 0) \<and>
         (dat (cells s a) ! p = Fin (3 / 2) \<longrightarrow>
            dat (cells (snd (fmaptheta_halfpolar s a False)) a) ! p = Fin (1 / 2)) \<and>
         (dat (cells s a) ! p = Fin (1 / 2) \<longrightarrow>
            dat (cells (snd (fmaptheta_halfpolar s a False)) a) ! p = Fin (1 / 2))"
  using assms
  by (simp add: fmaptheta_halfpolar_ref fmaptheta_halfpolar_rad fge_def fne_def feq_def fsub_def)

theorem fmaptheta_halfpolar_normalized_examples_witness:
  "dat (cells (snd (fmaptheta_halfpolar
          (single_store (vector [Fin 2, Fin (3 / 2), Fin (1 / 2)])) 0 False)) 0)
     = [Fin 0, Fin (1 / 2), Fin (1 / 2)]"
proof -
  let ?s = "single_store (vector [Fin 2, Fin (3 / 2), Fin (1 / 2)])"
  let ?r = "dat (cells (snd (fmaptheta_halfpolar ?s 0 False)) 0)"
  have len: "length ?r = 3"
    by (simp add: fmaptheta_halfpolar_rad single_store_def vector_def)
  have "?r ! 0 = Fin 0"
    using fmaptheta_halfpolar_normalized_examples [of 0 ?s 0]
    by (simp add: single_store_def vector_def)
  moreover have "?r ! 1 = Fin (1 / 2)"
    using fmaptheta_halfpolar_normalized_examples [of 1 ?s 0]
    by (simp add: single_store_def vector_def)
  moreover have "?r ! 2 = Fin (1 / 2)"
    using fmaptheta_halfpolar_normalized_examples [of 2 ?s 0]
    by (simp add: single_store_def vector_def)
  ultimately show ?thesis using len
    by (auto simp: list_eq_iff_nth_eq less_Suc_eq numeral_3_eq_3 numeral_2_eq_2)
qed

text \<open>
  Claim C2, the code at an angle of 1.5 with \<^verbatim>\<open>deg=False\<close>: 1.5 lies in \<open>[0, pi)\<close>,
  where the docstring and the comments of the function leave an angle unchanged, and the
  code returns 0.5, because it compares with 1 and 2 where they say pi and 2 pi.
\<close>

theorem fmaptheta_halfpolar_radian_threshold:
  "dat (cells (snd (fmaptheta_halfpolar (single_store (vector [Fin (3 / 2)])) 0 False)) 0)
     = [Fin (1 / 2)] \<and> (0::real) \<le> 3 / 2 \<and> (3 / 2 :: real) < pi"
proof -
  have "(3 / 2 :: real) < pi" using pi_ge_two by simp
  then show ?thesis
    by (simp add: fmaptheta_halfpolar_rad single_store_def vector_def fge_def fne_def feq_def fsub_def)
qed

section \<open>fmask_snr and fmask_signal\<close>

lemma fmask_snr_example:
  "fmask_snr (single_store (vector [Fin 1, Fin 5, Fin 10])) 0 (Scalar (Fin 1)) (Fin 3) =
     (Inr (1, 2),
      \<lparr>cells = ((\<lambda>_. vector [Fin 1, Fin 5, Fin 10])
                 (1 := vector [NaN, Fin 1, Fin 1]))(2 := vector [NaN, Fin 5, Fin 10]),
       window = (\<lambda>r. (r, [0, 1, 2])),
       headers = (\<lambda>_. Map.empty),
       nxt = 3\<rparr>)"
proof -
  let ?s = "single_store (vector [Fin 1, Fin 5, Fin 10])"
  have wf: "wf_array (cells ?s 0)"
    by (simp add: single_store_def vector_def wf_array_def)
  have bc: "broadcast_shapes (shape (cells ?s 0)) (shape (operand_val ?s (Scalar (Fin 1)))) =
              Some (shape (cells ?s 0))"
    by (simp add: scalar_array_def broadcast_shapes_scalar)
  have u: "[0..<3] = [0, 1, 2]"
    by (simp add: upt_rec)
  have w: "((\<lambda>r. (r, l)) (a := (a, l)))(b := (b, l)) = (\<lambda>r. (r, l))" for a b :: nat and l :: "nat list"
    by (auto simp: fun_eq_iff)
  show ?thesis
    by (simp add: fmask_snr_eval [OF wf bc] Let_def broadcast_to_scalar)
       (simp add: single_store_def vector_def u inf_of_def numeral_3_eq_3 numeral_2_eq_2 w)
qed

text \<open>
  Claim C7. For a noise that is a scalar or an array broadcastable to the shape of the
  data, \<^verbatim>\<open>fmask_snr\<close> returns a mask and a clipped array of the shape of the data,
  with \<open>mask[p] = NaN\<close> exactly when \<open>data[p] / noise[p] < snr\<close> and 1 otherwise, and
  \<open>clipped[p] = data[p] * mask[p]\<close>; for a scalar noise \<open>noise[p]\<close> is that scalar. On
  \<open>data = [1, 5, 10]\<close>, \<open>noise = 1.0\<close>, \<open>snr = 3.0\<close> the mask is \<open>[NaN, 1, 1]\<close> and the
  clipped array \<open>[NaN, 5, 10]\<close>.
\<close>

theorem fmask_snr_mask_and_clipped:
  "(wf_array (cells s data) \<and>
    broadcast_shapes (shape (cells s data)) (shape (operand_val s noise)) =
      Some (shape (cells s data)) \<longrightarrow>
    (\<exists>m c s'.
       fmask_snr s data noise snr = (Inr (m, c), s') \<and>
       shape (cells s' m) = shape (cells s data) \<and>
       shape (cells s' c) = shape (cells s data) \<and>
       length (dat (cells s' m)) = length (dat (cells s data)) \<and>
       length (dat (cells s' c)) = length (dat (cells s data)) \<and>
       (\<forall>p < length (dat (cells s data)).
          dat (cells s' m) ! p =
            (if flt (fdiv (dat (cells s data) ! p)
                          (broadcast_to (operand_val s noise) (shape (cells s data)) ! p)) snr
             then NaN else Fin 1) \<and>
          dat (cells s' c) ! p = fmul (dat (cells s data) ! p) (dat (cells s' m) ! p) \<and>
          (\<forall>v. noise = Scalar v \<longrightarrow>
             broadcast_to (operand_val s noise) (shape (cells s data)) ! p = v)))) \<and>
   (let r = fmask_snr (single_store (vector [Fin 1, Fin 5, Fin 10])) 0 (Scalar (Fin 1)) (Fin 3)
    in fst r = Inr (1, 2) \<and>
       cells (snd r) 1 = vector [NaN, Fin 1, Fin 1] \<and>
       cells (snd r) 2 = vector [NaN, Fin 5, Fin 10])"
proof (intro conjI impI)
  assume a: "wf_array (cells s data) \<and>
    broadcast_shapes (shape (cells s data)) (shape (operand_val s noise)) =
      Some (shape (cells s data))"
  then have wf: "wf_array (cells s data)" and
    bc: "broadcast_shapes (shape (cells s data)) (shape (operand_val s noise)) =
           Some (shape (cells s data))"
    by simp_all
  have len: "length (dat (cells s data)) = prod_list (shape (cells s data))"
    using wf by (simp add: wf_array_def)
  show "\<exists>m c s'.
       fmask_snr s data noise snr = (Inr (m, c), s') \<and>
       shape (cells s' m) = shape (cells s data) \<and>
       shape (cells s' c) = shape (cells s data) \<and>
       length (dat (cells s' m)) = length (dat (cells s data)) \<and>
       length (dat (cells s' c)) = length (dat (cells s data)) \<and>
       (\<forall>p < length (dat (cells s data)).
          dat (cells s' m) ! p =
            (if flt (fdiv (dat (cells s data) ! p)
                          (broadcast_to (operand_val s noise) (shape (cells s data)) ! p)) snr
             then NaN else Fin 1) \<and>
          dat (cells s' c) ! p = fmul (dat (cells s data) ! p) (dat (cells s' m) ! p) \<and>
          (\<forall>v. noise = Scalar v \<longrightarrow>
             broadcast_to (operand_val s noise) (shape (cells s data)) ! p = v))"
    by (simp add: fmask_snr_eval [OF wf bc] Let_def len) (auto simp: broadcast_to_scalar len)
next
  show "let r = fmask_snr (single_store (vector [Fin 1, Fin 5, Fin 10])) 0 (Scalar (Fin 1)) (Fin 3)
    in fst r = Inr (1, 2) \<and>
       cells (snd r) 1 = vector [NaN, Fin 1, Fin 1] \<and>
       cells (snd r) 2 = vector [NaN, Fin 5, Fin 10]"
    by (simp add: fmask_snr_example)
qed

theorem fmask_snr_mask_and_clipped_witness:
  "\<exists>m c s'.
     fmask_snr (pair_store \<lparr>shape = [2, 2], dat = [Fin 1, Fin 5, Fin 10, NaN]\<rparr>
                           \<lparr>shape = [2], dat = [Fin 1, Fin 2]\<rparr>) 0 (Ref 1) (Fin 3)
       = (Inr (m, c), s') \<and>
     dat (cells s' m) ! 0 = NaN \<and> dat (cells s' c) ! 0 = NaN \<and>
     dat (cells s' m) ! 1 = NaN \<and> dat (cells s' c) ! 1 = NaN \<and>
     dat (cells s' m) ! 2 = Fin 1 \<and> dat (cells s' c) ! 2 = Fin 10 \<and>
     dat (cells s' m) ! 3 = Fin 1 \<and> dat (cells s' c) ! 3 = NaN"
proof -
  let ?s = "pair_store \<lparr>shape = [2, 2], dat = [Fin 1, Fin 5, Fin 10, NaN]\<rparr>
                       \<lparr>shape = [2], dat = [Fin 1, Fin 2]\<rparr>"
  have wf: "wf_array (cells ?s 0)"
    by (simp add: pair_store_def wf_array_def)
  have bc: "broadcast_shapes (shape (cells ?s 0)) (shape (operand_val ?s (Ref 1))) =
              Some (shape (cells ?s 0))"
    by (simp add: pair_store_def broadcast_shapes_def)
  have u: "[0..<4] = [0, 1, 2, 3]"
    by (simp add: upt_rec)
  have nb: "broadcast_to (cells ?s (Suc 0)) (shape (cells ?s 0)) = [Fin 1, Fin 2, Fin 1, Fin 2]"
    by (simp add: pair_store_def broadcast_to_def src_coords_def u)
  from fmask_snr_mask_and_clipped [of ?s 0 "Ref 1" "Fin 3"] wf bc
  obtain m c s' where r: "fmask_snr ?s 0 (Ref 1) (Fin 3) = (Inr (m, c), s')"
    and pt: "\<forall>p < length (dat (cells ?s 0)).
          dat (cells s' m) ! p =
            (if flt (fdiv (dat (cells ?s 0) ! p)
                          (broadcast_to (operand_val ?s (Ref 1)) (shape (cells ?s 0)) ! p)) (Fin 3)
             then NaN else Fin 1) \<and>
          dat (cells s' c) ! p = fmul (dat (cells ?s 0) ! p) (dat (cells s' m) ! p)"
    by blast
  have d: "dat (cells ?s 0) = [Fin 1, Fin 5, Fin 10, NaN]"
    by (simp add: pair_store_def)
  have "dat (cells s' m) ! 0 = NaN \<and> dat (cells s' c) ! 0 = NaN"
    using pt [rule_format, of 0] by (simp add: nb d)
  moreover have "dat (cells s' m) ! 1 = NaN \<and> dat (cells s' c) ! 1 = NaN"
    using pt [rule_format, of 1] by (simp add: nb d)
  moreover have "dat (cells s' m) ! 2 = Fin 1 \<and> dat (cells s' c) ! 2 = Fin 10"
    using pt [rule_format, of 2] by (simp add: nb d)
  moreover have "dat (cells s' m) ! 3 = Fin 1 \<and> dat (cells s' c) ! 3 = NaN"
    using pt [rule_format, of 3] by (simp add: nb d)
  ultimately show ?thesis using r by blast
qed

text \<open>
  Claim C10. \<^verbatim>\<open>fmask_signal(data, t)\<close> returns what \<^verbatim>\<open>fmask_snr(data, 1.0, t)\<close>
  returns: the same two references, holding the same arrays, in the same store.
\<close>

theorem fmask_signal_is_unit_noise_snr:
  assumes "wf_array (cells s data)"
  shows "fmask_signal s data t = fmask_snr s data (Scalar (Fin 1)) t"
proof -
  let ?S = "shape (cells s data)"
  have n: "length (dat (cells s data)) = prod_list ?S"
    using assms by (simp add: wf_array_def)
  have bc: "broadcast_shapes ?S (shape (operand_val s (Scalar (Fin 1)))) = Some ?S"
    by (simp add: scalar_array_def broadcast_shapes_scalar)
  have eq: "map (\<lambda>p. if flt (fdiv (dat (cells s data) ! p)
                        (broadcast_to (scalar_array (Fin 1)) ?S ! p)) t
                 then NaN else Fin 1) [0..<prod_list ?S] =
        map (\<lambda>p. if flt (dat (cells s data) ! p) t then NaN else Fin 1) [0..<prod_list ?S]"
    by (rule map_cong) (simp_all add: broadcast_to_scalar fdiv_one)
  show ?thesis
    by (simp add: fmask_signal_eval [OF assms] fmask_snr_eval [OF assms bc] Let_def eq)
qed

theorem fmask_signal_is_unit_noise_snr_witness:
  "wf_array (vector [Fin 1, Fin 5, Fin 10]) \<and>
   fmask_signal (single_store (vector [Fin 1, Fin 5, Fin 10])) 0 (Fin 3) =
     (Inr (1, 2),
      \<lparr>cells = ((\<lambda>_. vector [Fin 1, Fin 5, Fin 10])
                 (1 := vector [NaN, Fin 1, Fin 1]))(2 := vector [NaN, Fin 5, Fin 10]),
       window = (\<lambda>r. (r, [0, 1, 2])),
       headers = (\<lambda>_. Map.empty),
       nxt = 3\<rparr>)"
proof -
  have wf: "wf_array (vector [Fin 1, Fin 5, Fin 10])"
    by (simp add: vector_def wf_array_def)
  then have "wf_array (cells (single_store (vector [Fin 1, Fin 5, Fin 10])) 0)"
    by (simp add: single_store_def)
  from fmask_signal_is_unit_noise_snr [OF this, of "Fin 3"] wf show ?thesis
    by (simp add: fmask_snr_example)
qed


section \<open>Which arrays and headers a call leaves unchanged\<close>

lemma put_cells:
  "cells (put s r x) b =
     (if b = r then x
      else if fst (window s b) = fst (window s r) then seen_through s r x b
      else cells s b)"
  by (simp add: put_def)

lemma put_fields: "headers (put s r x) = headers s" "window (put s r x) = window s"
  "nxt (put s r x) = nxt s"
  by (simp_all add: put_def)

lemma zip_key_absent:
  "length d1 = length d2 \<Longrightarrow> (map_of (zip W d1) k = None) = (map_of (zip W d2) k = None)"
  by (simp add: map_of_eq_None_iff set_map [symmetric] map_fst_zip_take del: set_map)

lemma shared_update_twice:
  assumes "length d1 = length d2"
  shows "shared_update W d2 R (shared_update W d1 R rd) = shared_update W d2 R rd"
proof -
  have "(case map_of (zip W d2) (R ! j) of
           None \<Rightarrow> shared_update W d1 R rd ! j | Some v \<Rightarrow> v) =
        (case map_of (zip W d2) (R ! j) of None \<Rightarrow> rd ! j | Some v \<Rightarrow> v)"
    if "j < length rd" for j
  proof (cases "map_of (zip W d2) (R ! j)")
    case None
    then have "map_of (zip W d1) (R ! j) = None"
      using zip_key_absent [OF assms, of W "R ! j"] by simp
    then show ?thesis
      using that None by (simp add: shared_update_def)
  next
    case (Some v)
    then show ?thesis by simp
  qed
  note eq = this
  have l: "length (shared_update W d1 R rd) = length rd"
    by (simp add: shared_update_def)
  show ?thesis
    unfolding shared_update_def [of W d2] l
    by (rule map_cong [OF refl]) (simp add: eq)
qed

lemma seen_through_shape: "shape (seen_through s r x b) = shape (cells s b)"
  by (simp add: seen_through_def)

lemma seen_through_length: "length (dat (seen_through s r x b)) = length (dat (cells s b))"
  by (simp add: seen_through_def shared_update_def)

lemma seen_through_outside:
  assumes "j < length (dat (cells s b))" "snd (window s b) ! j \<notin> set (snd (window s r))"
  shows "dat (seen_through s r x b) ! j = dat (cells s b) ! j"
proof -
  have "snd (window s b) ! j \<notin> fst ` set (zip (snd (window s r)) (dat x))"
    using assms(2) by (auto dest: set_zip_leftD)
  then have "map_of (zip (snd (window s r)) (dat x)) (snd (window s b) ! j) = None"
    by (simp add: map_of_eq_None_iff)
  then show ?thesis
    using assms(1) by (simp add: seen_through_def shared_update_def)
qed

lemma seen_through_shared:
  assumes "distinct (snd (window s r))" "length (snd (window s r)) = length (dat x)"
    and "j < length (dat (cells s b))" "i < length (dat x)"
    and "snd (window s b) ! j = snd (window s r) ! i"
  shows "dat (seen_through s r x b) ! j = dat x ! i"
proof -
  have "map_of (zip (snd (window s r)) (dat x)) (snd (window s r) ! i) = Some (dat x ! i)"
    using assms(1,2,4) by (simp add: map_of_zip_nth)
  then show ?thesis
    using assms(3,5) by (simp add: seen_through_def shared_update_def)
qed

lemma fmask_snr_frame:
  "a < nxt s \<Longrightarrow> cells (snd (fmask_snr s data noise snr)) a = cells s a"
  by (auto simp: fmask_snr_def Let_def alloc_def split: sum.splits prod.splits)

lemma fmask_snr_headers: "headers (snd (fmask_snr s data noise snr)) = headers s"
  by (auto simp: fmask_snr_def Let_def alloc_def split: sum.splits prod.splits)

lemma fmask_signal_frame:
  "a < nxt s \<Longrightarrow> cells (snd (fmask_signal s data t)) a = cells s a"
  by (auto simp: fmask_signal_def Let_def alloc_def split: sum.splits prod.splits)

lemma fmask_signal_headers: "headers (snd (fmask_signal s data t)) = headers s"
  by (auto simp: fmask_signal_def Let_def alloc_def split: sum.splits prod.splits)

lemma fgradient_frame:
  "a < nxt s \<Longrightarrow> cells (snd (fgradient np_gradient s img)) a = cells s a"
  by (auto simp: fgradient_def Let_def alloc_def split: sum.splits prod.splits list.splits)

lemma fgradient_headers: "headers (snd (fgradient np_gradient s img)) = headers s"
  by (auto simp: fgradient_def Let_def alloc_def split: sum.splits prod.splits list.splits)

lemma fmaskinterp_frame:
  "a < nxt s \<Longrightarrow> cells (snd (fmaskinterp griddata s img msk)) a = cells s a"
  by (auto simp: fmaskinterp_def Let_def alloc_def split: sum.splits prod.splits)

lemma fmaskinterp_headers: "headers (snd (fmaskinterp griddata s img msk)) = headers s"
  by (auto simp: fmaskinterp_def Let_def alloc_def split: sum.splits prod.splits)

lemma fhighlatmask_frame:
  "a < nxt s \<Longrightarrow> cells (snd (fhighlatmask s lb_coords blim)) a = cells s a"
  by (simp add: fhighlatmask_def Let_def alloc_def)

lemma fhighlatmask_headers: "headers (snd (fhighlatmask s lb_coords blim)) = headers s"
  by (simp add: fhighlatmask_def Let_def alloc_def)

lemma fconvolve_smooth_headers:
  "headers (snd (fconvolve_smooth lib s k data method)) = headers s"
  by (auto simp: fconvolve_smooth_def Let_def alloc_def put_def split: sum.splits prod.splits)

lemma fconvolve_smooth_cells:
  "a < nxt s \<Longrightarrow>
     cells (snd (fconvolve_smooth lib s k data method)) a =
       (if method = ''scipy'' \<and> 2 \<le> length (shape (cells s data))
        then cells (put s data (nan_to_zero (cells s data))) a else cells s a)"
  by (auto simp: fconvolve_smooth_def Let_def alloc_def put_fields split: sum.splits prod.splits)

lemma fconvolve_headers:
  "headers (snd (fconvolve lib s oldres newres data header method)) = headers s"
  by (simp add: fconvolve_def fconvolve_smooth_headers split: sum.splits)

lemma fconvolve_cells:
  assumes "a < nxt s"
  shows "cells (snd (fconvolve lib s oldres newres data header method)) a =
       (if method = ''scipy'' \<and> 2 \<le> length (shape (cells s data)) \<and>
           (\<exists>k. fconvolve_kernelsize oldres newres (headers s header) = Inr k)
        then (if a = data then nan_to_zero (cells s data)
              else if fst (window s a) = fst (window s data)
              then seen_through s data (nan_to_zero (cells s data)) a
              else cells s a)
        else cells s a)"
proof (cases "fconvolve_kernelsize oldres newres (headers s header)")
  case (Inl e)
  then show ?thesis by (simp add: fconvolve_def)
next
  case (Inr k)
  then show ?thesis
    using assms by (simp add: fconvolve_def fconvolve_smooth_cells put_cells)
qed

lemma fmaptheta_halfpolar_headers: "headers (snd (fmaptheta_halfpolar s a deg)) = headers s"
  by (simp add: fmaptheta_halfpolar_def Let_def put_fields)

lemma put_put_cells:
  assumes "length (dat x1) = length (dat x2)"
  shows "cells (put (put s r x1) r x2) b =
     (if b = r then x2
      else if fst (window s b) = fst (window s r) then seen_through s r x2 b
      else cells s b)"
  using shared_update_twice [OF assms]
  by (simp add: put_cells put_fields seen_through_def)

lemma put_isub_cells:
  "cells (put (put s r x1) r (isub_masked Q d x1)) b =
     (if b = r then isub_masked Q d x1
      else if fst (window s b) = fst (window s r) then seen_through s r (isub_masked Q d x1) b
      else cells s b)"
proof -
  have "length (dat x1) = length (dat (isub_masked Q d x1))"
    by (simp add: isub_masked_def)
  then show ?thesis
    by (rule put_put_cells)
qed

lemma fmaptheta_halfpolar_cells:
  "cells (snd (fmaptheta_halfpolar s angles deg)) a =
      (let lo = (if deg then Fin 180 else Fin 1); hi = (if deg then Fin 360 else Fin 2);
           written = isub_masked (\<lambda>x. feq x hi) hi
                       (isub_masked (\<lambda>x. fge x lo \<and> fne x hi) lo (cells s angles))
       in if a = angles then written
          else if fst (window s a) = fst (window s angles) then seen_through s angles written a
          else cells s a)"
proof -
  have c: "cells (put s angles x) angles = x" for x
    by (simp add: put_cells)
  show ?thesis
    unfolding fmaptheta_halfpolar_def Let_def c
    by (simp add: put_isub_cells)
qed

section \<open>The kernel size of fconvolve\<close>

lemma fwhm_factor_val: "fwhm_factor = Fin (2 * sqrt (2 * ln 2))"
proof -
  have "(0::real) \<le> 2 * ln 2" by simp
  then show ?thesis by (simp add: fwhm_factor_def)
qed

lemma radicand_negative:
  assumes "0 \<le> n" "n < oldr"
  shows "fsub (fpow2 (fdiv (Fin n) fwhm_factor)) (fpow2 (fdiv (Fin oldr) fwhm_factor)) =
           Fin ((n / (2 * sqrt (2 * ln 2)))\<^sup>2 - (oldr / (2 * sqrt (2 * ln 2)))\<^sup>2) \<and>
         (n / (2 * sqrt (2 * ln 2)))\<^sup>2 - (oldr / (2 * sqrt (2 * ln 2)))\<^sup>2 < 0"
proof -
  let ?k = "2 * sqrt (2 * ln (2::real))"
  have k: "0 < ?k" by simp
  have "n / ?k < oldr / ?k"
    using assms k by (simp add: divide_strict_right_mono)
  moreover have "0 \<le> n / ?k"
    using assms k by simp
  ultimately have "(n / ?k)\<^sup>2 < (oldr / ?k)\<^sup>2"
    by (simp add: power_strict_mono)
  moreover have "?k \<noteq> 0" using k by simp
  ultimately show ?thesis
    by (simp add: fwhm_factor_val fpow2_def fsub_def power2_eq_square)
qed

lemma fsqrt_negative: "flt r (Fin 0) \<Longrightarrow> fsqrt r = NaN"
  by (cases r) simp_all

lemma fconvolve_kernelsize_NaN:
  assumes "flt (fsub (fpow2 (fdiv newres fwhm_factor)) (fpow2 (fdiv oldres fwhm_factor))) (Fin 0)"
    and "hdr ''CDELT2'' = Some v" "hval_real v = Inr c"
  shows "fconvolve_kernelsize oldres newres hdr = Inr NaN"
  using assms(2,3) fsqrt_negative [OF assms(1)]
  by (simp add: fconvolve_kernelsize_def getitem_def Let_def)

lemma radicand_one_two:
  "flt (fsub (fpow2 (fdiv (Fin 1) fwhm_factor)) (fpow2 (fdiv (Fin 2) fwhm_factor))) (Fin 0)"
  using radicand_negative [of 1 2] by simp

lemma fconvolve_kernelsize_errors:
  "fconvolve_kernelsize oldres newres hdr = Inl e \<Longrightarrow>
     (hdr ''CDELT2'' = None \<and> e = KeyError ''CDELT2'') \<or>
     ((\<exists>t. hdr ''CDELT2'' = Some (StrV t)) \<and> e = TypeError)"
  by (auto simp: fconvolve_kernelsize_def getitem_def Let_def
           split: option.splits sum.splits hval.splits elim: hval_real.elims)

section \<open>fheader_3Dto2D\<close>

lemma delete_keys_result:
  "distinct keys \<Longrightarrow> (\<forall>k \<in> set keys. K k \<noteq> None \<longrightarrow> h k \<noteq> None) \<Longrightarrow>
     delete_keys K keys h = Inr (\<lambda>k. if k \<in> set keys \<and> K k \<noteq> None then None else h k)"
proof (induction keys arbitrary: h)
  case Nil
  then show ?case by simp
next
  case (Cons key keys)
  show ?case
  proof (cases "K key \<noteq> None")
    case True
    then have present: "h key \<noteq> None" using Cons.prems by simp
    have "delete_keys K keys (h(key := None)) =
            Inr (\<lambda>k. if k \<in> set keys \<and> K k \<noteq> None then None else (h(key := None)) k)"
      using Cons.prems by (intro Cons.IH) auto
    then show ?thesis
      using True present by (auto simp: delitem_def)
  next
    case False
    have "delete_keys K keys h = Inr (\<lambda>k. if k \<in> set keys \<and> K k \<noteq> None then None else h k)"
      using Cons.prems by (intro Cons.IH) auto
    then show ?thesis
      using False by (auto simp: fun_eq_iff)
  qed
qed

lemma distinct_keys_3D: "distinct keys_3D"
  by (simp add: keys_3D_def)

lemma NAXIS_not_3D: "''NAXIS'' \<notin> set keys_3D"
  by (simp add: keys_3D_def)

text \<open>The header the loop of \<^verbatim>\<open>fheader_3Dto2D\<close> leaves.\<close>

lemma delete_keys_3D:
  "delete_keys hdr keys_3D (hdr(''NAXIS'' \<mapsto> IntV 2)) =
     Inr (\<lambda>k. if k \<in> set keys_3D then None else (hdr(''NAXIS'' \<mapsto> IntV 2)) k)"
proof -
  have "\<forall>k \<in> set keys_3D. hdr k \<noteq> None \<longrightarrow> (hdr(''NAXIS'' \<mapsto> IntV 2)) k \<noteq> None"
    by auto
  then have "delete_keys hdr keys_3D (hdr(''NAXIS'' \<mapsto> IntV 2)) =
     Inr (\<lambda>k. if k \<in> set keys_3D \<and> hdr k \<noteq> None then None else (hdr(''NAXIS'' \<mapsto> IntV 2)) k)"
    using distinct_keys_3D by (rule delete_keys_result [rotated])
  moreover have "(\<lambda>k. if k \<in> set keys_3D \<and> hdr k \<noteq> None then None else (hdr(''NAXIS'' \<mapsto> IntV 2)) k) =
        (\<lambda>k. if k \<in> set keys_3D then None else (hdr(''NAXIS'' \<mapsto> IntV 2)) k)"
    using NAXIS_not_3D by (auto simp: fun_eq_iff)
  ultimately show ?thesis by simp
qed

lemma fheader_3Dto2D_returned:
  assumes "fst (fheader_3Dto2D writeto fs filedir_in filedir_out write) = Inr h2"
  shows "\<exists>f. fs filedir_in = Some f \<and>
           h2 = (\<lambda>k. if k \<in> set keys_3D then None else ((fheader f)(''NAXIS'' \<mapsto> IntV 2)) k)"
  using assms
  by (auto simp: fheader_3Dto2D_def getdata_def delete_keys_3D Let_def
           split: option.splits sum.splits if_splits)

lemma fheader_3Dto2D_no_write:
  assumes "fs filedir_in = Some f"
  shows "fheader_3Dto2D writeto fs filedir_in filedir_out False =
           (Inr (\<lambda>k. if k \<in> set keys_3D then None else ((fheader f)(''NAXIS'' \<mapsto> IntV 2)) k), fs)"
  using assms by (simp add: fheader_3Dto2D_def getdata_def delete_keys_3D Let_def)


text \<open>Every keyword outside \<^verbatim>\<open>keys_3D\<close> other than \<^verbatim>\<open>NAXIS\<close> keeps its value.\<close>

lemma fheader_3Dto2D_other_keys:
  assumes "fst (fheader_3Dto2D writeto fs filedir_in filedir_out write) = Inr h2"
    and "fs filedir_in = Some f" "k \<notin> set keys_3D" "k \<noteq> ''NAXIS''"
  shows "h2 k = fheader f k"
  using fheader_3Dto2D_returned [OF assms(1)] assms(2-4) by auto

section \<open>The claims on mutation, on the kernel size and on the reduced header\<close>

text \<open>
  Claim C3, as the code has it. Of the functions that take an array or a header,
  \<^verbatim>\<open>fmask_snr\<close>, \<^verbatim>\<open>fmask_signal\<close>, \<^verbatim>\<open>fgradient\<close>, \<^verbatim>\<open>fmaskinterp\<close> and
  \<^verbatim>\<open>fhighlatmask\<close> leave every array that existed before the call and every header as
  they were. \<^verbatim>\<open>fconvolve\<close> leaves every header as it was; when the method is
  \<^verbatim>\<open>"scipy"\<close>, the kernel size was computed and the array has two axes, it overwrites
  NaN by 0 in its \<^verbatim>\<open>data\<close> argument, and otherwise it leaves every existing array as it
  was. \<^verbatim>\<open>fmaptheta_halfpolar\<close> returns the reference it was given, leaves every header
  as it was, and rewrites the array of angles in place by its two masked subtractions. After
  either of the two writes an array on another block of memory is as it was, and an array
  on the block of the written array (a view of it, or the array it is a view of) keeps
  its shape and its length, keeps its sample at every offset it does not share with the
  written array, and holds the written sample at every offset it shares with it, the
  offsets of the written array being distinct, one for each of its samples.
\<close>

theorem input_entities_after_call:
  "(\<forall>a < nxt s. cells (snd (fmask_snr s data noise snr)) a = cells s a) \<and>
   headers (snd (fmask_snr s data noise snr)) = headers s \<and>
   (\<forall>a < nxt s. cells (snd (fmask_signal s data t)) a = cells s a) \<and>
   headers (snd (fmask_signal s data t)) = headers s \<and>
   (\<forall>a < nxt s. cells (snd (fgradient np_gradient s data)) a = cells s a) \<and>
   headers (snd (fgradient np_gradient s data)) = headers s \<and>
   (\<forall>a < nxt s. cells (snd (fmaskinterp griddata s data msk)) a = cells s a) \<and>
   headers (snd (fmaskinterp griddata s data msk)) = headers s \<and>
   (\<forall>a < nxt s. cells (snd (fhighlatmask s lb_coords blim)) a = cells s a) \<and>
   headers (snd (fhighlatmask s lb_coords blim)) = headers s \<and>
   headers (snd (fconvolve lib s oldres newres data header method)) = headers s \<and>
   (\<forall>a < nxt s.
      cells (snd (fconvolve lib s oldres newres data header method)) a =
        (if method = ''scipy'' \<and> 2 \<le> length (shape (cells s data)) \<and>
            (\<exists>k. fconvolve_kernelsize oldres newres (headers s header) = Inr k)
         then (if a = data then nan_to_zero (cells s data)
               else if fst (window s a) = fst (window s data)
               then seen_through s data (nan_to_zero (cells s data)) a
               else cells s a)
         else cells s a)) \<and>
   fst (fmaptheta_halfpolar s angles deg) = angles \<and>
   headers (snd (fmaptheta_halfpolar s angles deg)) = headers s \<and>
   (\<forall>a. cells (snd (fmaptheta_halfpolar s angles deg)) a =
      (let lo = (if deg then Fin 180 else Fin 1); hi = (if deg then Fin 360 else Fin 2);
           written = isub_masked (\<lambda>x. feq x hi) hi
                       (isub_masked (\<lambda>x. fge x lo \<and> fne x hi) lo (cells s angles))
       in if a = angles then written
          else if fst (window s a) = fst (window s angles) then seen_through s angles written a
          else cells s a)) \<and>
   shape (seen_through s r x b) = shape (cells s b) \<and>
   length (dat (seen_through s r x b)) = length (dat (cells s b)) \<and>
   (\<forall>j < length (dat (cells s b)).
      snd (window s b) ! j \<notin> set (snd (window s r)) \<longrightarrow>
        dat (seen_through s r x b) ! j = dat (cells s b) ! j) \<and>
   (distinct (snd (window s r)) \<and> length (snd (window s r)) = length (dat x) \<longrightarrow>
      (\<forall>j < length (dat (cells s b)). \<forall>i < length (dat x).
         snd (window s b) ! j = snd (window s r) ! i \<longrightarrow>
           dat (seen_through s r x b) ! j = dat x ! i))"
proof -
  have snr: "\<forall>a < nxt s. cells (snd (fmask_snr s data noise snr)) a = cells s a"
    by (simp add: fmask_snr_frame)
  have sig: "\<forall>a < nxt s. cells (snd (fmask_signal s data t)) a = cells s a"
    by (simp add: fmask_signal_frame)
  have grad: "\<forall>a < nxt s. cells (snd (fgradient np_gradient s data)) a = cells s a"
    by (simp add: fgradient_frame)
  have interp: "\<forall>a < nxt s. cells (snd (fmaskinterp griddata s data msk)) a = cells s a"
    by (simp add: fmaskinterp_frame)
  have lat: "\<forall>a < nxt s. cells (snd (fhighlatmask s lb_coords blim)) a = cells s a"
    by (simp add: fhighlatmask_frame)
  have conv: "\<forall>a < nxt s.
      cells (snd (fconvolve lib s oldres newres data header method)) a =
        (if method = ''scipy'' \<and> 2 \<le> length (shape (cells s data)) \<and>
            (\<exists>k. fconvolve_kernelsize oldres newres (headers s header) = Inr k)
         then (if a = data then nan_to_zero (cells s data)
               else if fst (window s a) = fst (window s data)
               then seen_through s data (nan_to_zero (cells s data)) a
               else cells s a)
         else cells s a)"
    using fconvolve_cells by blast
  have theta: "\<forall>a. cells (snd (fmaptheta_halfpolar s angles deg)) a =
      (let lo = (if deg then Fin 180 else Fin 1); hi = (if deg then Fin 360 else Fin 2);
           written = isub_masked (\<lambda>x. feq x hi) hi
                       (isub_masked (\<lambda>x. fge x lo \<and> fne x hi) lo (cells s angles))
       in if a = angles then written
          else if fst (window s a) = fst (window s angles) then seen_through s angles written a
          else cells s a)"
    using fmaptheta_halfpolar_cells by blast
  have out: "\<forall>j < length (dat (cells s b)).
      snd (window s b) ! j \<notin> set (snd (window s r)) \<longrightarrow>
        dat (seen_through s r x b) ! j = dat (cells s b) ! j"
    by (simp add: seen_through_outside)
  have shared: "distinct (snd (window s r)) \<and> length (snd (window s r)) = length (dat x) \<longrightarrow>
      (\<forall>j < length (dat (cells s b)). \<forall>i < length (dat x).
         snd (window s b) ! j = snd (window s r) ! i \<longrightarrow>
           dat (seen_through s r x b) ! j = dat x ! i)"
    using seen_through_shared by blast
  show ?thesis
    using snr sig grad interp lat conv theta out shared
    by (intro conjI)
       (assumption | rule fmask_snr_headers fmask_signal_headers fgradient_headers
          fmaskinterp_headers fhighlatmask_headers fconvolve_headers fmaptheta_halfpolar_ref
          fmaptheta_halfpolar_headers seen_through_shape seen_through_length)+
qed

theorem input_entities_after_call_witness:
  "cells (snd (fconvolve stub_lib cube_and_plane (Fin 1) (Fin 2) 1 0 ''scipy'')) 1
     = \<lparr>shape = [1, 2], dat = [Fin 0, Fin 3]\<rparr> \<and>
   cells (snd (fconvolve stub_lib cube_and_plane (Fin 1) (Fin 2) 1 0 ''scipy'')) 0
     = \<lparr>shape = [2, 1, 2], dat = [Fin 0, Fin 3, Fin 4, NaN]\<rparr> \<and>
   cells (snd (fconvolve stub_lib cube_and_plane (Fin 1) (Fin 2) 1 0 ''astropy'')) 0
     = \<lparr>shape = [2, 1, 2], dat = [NaN, Fin 3, Fin 4, NaN]\<rparr> \<and>
   cells (snd (fmaptheta_halfpolar cube_and_plane 1 False)) 1
     = \<lparr>shape = [1, 2], dat = [NaN, Fin 0]\<rparr> \<and>
   cells (snd (fmaptheta_halfpolar cube_and_plane 1 False)) 0
     = \<lparr>shape = [2, 1, 2], dat = [NaN, Fin 0, Fin 4, NaN]\<rparr> \<and>
   cells (snd (fmask_snr cube_and_plane 1 (Scalar (Fin 1)) (Fin 3))) 0
     = \<lparr>shape = [2, 1, 2], dat = [NaN, Fin 3, Fin 4, NaN]\<rparr> \<and>
   cells (snd (fmask_signal cube_and_plane 1 (Fin 3))) 0
     = \<lparr>shape = [2, 1, 2], dat = [NaN, Fin 3, Fin 4, NaN]\<rparr> \<and>
   cells (snd (fgradient gradient_stub cube_and_plane 1)) 0
     = \<lparr>shape = [2, 1, 2], dat = [NaN, Fin 3, Fin 4, NaN]\<rparr> \<and>
   cells (snd (fmaskinterp griddata_stub cube_and_plane 1 1)) 0
     = \<lparr>shape = [2, 1, 2], dat = [NaN, Fin 3, Fin 4, NaN]\<rparr> \<and>
   cells (snd (fhighlatmask cube_and_plane \<lparr>lon = 1, lat = 1\<rparr> (Fin 5))) 0
     = \<lparr>shape = [2, 1, 2], dat = [NaN, Fin 3, Fin 4, NaN]\<rparr> \<and>
   dat (seen_through cube_and_plane 1 \<lparr>shape = [1, 2], dat = [Fin 0, Fin 3]\<rparr> 0) ! 0 = Fin 0 \<and>
   dat (seen_through cube_and_plane 1 \<lparr>shape = [1, 2], dat = [Fin 0, Fin 3]\<rparr> 0) ! 2 = Fin 4"
proof -
  let ?s = cube_and_plane
  let ?x = "\<lparr>shape = [1, 2], dat = [Fin 0, Fin 3]\<rparr>"
  note t = input_entities_after_call
             [of ?s 1 "Scalar (Fin 1)" "Fin 3" "Fin 3" gradient_stub griddata_stub 1
                 "\<lparr>lon = 1, lat = 1\<rparr>" "Fin 5" stub_lib "Fin 1" "Fin 2" 0 "''scipy''" 1 False]
  have k: "\<exists>k. fconvolve_kernelsize (Fin 1) (Fin 2) (headers ?s 0) = Inr k"
    by (simp add: fconvolve_kernelsize_def getitem_def header_cdelt2_def cube_and_plane_def Let_def)
  have live: "0 < nxt ?s" "1 < nxt ?s"
    by (simp_all add: cube_and_plane_def)
  have c0: "cells ?s 0 = \<lparr>shape = [2, 1, 2], dat = [NaN, Fin 3, Fin 4, NaN]\<rparr>"
    and c1: "cells ?s (Suc 0) = \<lparr>shape = [1, 2], dat = [NaN, Fin 3]\<rparr>"
    and w0: "window ?s 0 = (0, [0, 1, 2, 3])" and w1: "window ?s (Suc 0) = (0, [0, 1])"
    by (simp_all add: cube_and_plane_def)
  have u: "[0..<4] = [0, 1, 2, 3::nat]"
    by (simp add: upt_rec)
  have st: "seen_through ?s (Suc 0) \<lparr>shape = [Suc 0, 2], dat = [a, b]\<rparr> 0 =
              \<lparr>shape = [2, Suc 0, 2], dat = [a, b, Fin 4, NaN]\<rparr>" for a b
    unfolding seen_through_def shared_update_def c0 w0 w1
    by (simp add: u)
  have conv: "\<forall>a < nxt ?s.
      cells (snd (fconvolve stub_lib ?s (Fin 1) (Fin 2) 1 0 ''scipy'')) a =
        (if ''scipy'' = ''scipy'' \<and> 2 \<le> length (shape (cells ?s 1)) \<and>
            (\<exists>k. fconvolve_kernelsize (Fin 1) (Fin 2) (headers ?s 0) = Inr k)
         then (if a = 1 then nan_to_zero (cells ?s 1)
               else if fst (window ?s a) = fst (window ?s 1)
               then seen_through ?s 1 (nan_to_zero (cells ?s 1)) a
               else cells ?s a)
         else cells ?s a)"
    using t by blast
  have a1: "cells (snd (fconvolve stub_lib ?s (Fin 1) (Fin 2) 1 0 ''scipy'')) 1
              = \<lparr>shape = [1, 2], dat = [Fin 0, Fin 3]\<rparr>"
    using conv [rule_format, OF live(2)] k by (simp add: c1 nan_to_zero_def)
  have a0: "cells (snd (fconvolve stub_lib ?s (Fin 1) (Fin 2) 1 0 ''scipy'')) 0
              = \<lparr>shape = [2, 1, 2], dat = [Fin 0, Fin 3, Fin 4, NaN]\<rparr>"
    using conv [rule_format, OF live(1)] k by (simp add: c1 w0 w1 nan_to_zero_def st)
  have n: "\<forall>a < nxt ?s.
      cells (snd (fconvolve stub_lib ?s (Fin 1) (Fin 2) 1 0 ''astropy'')) a =
        (if ''astropy'' = ''scipy'' \<and> 2 \<le> length (shape (cells ?s 1)) \<and>
            (\<exists>k. fconvolve_kernelsize (Fin 1) (Fin 2) (headers ?s 0) = Inr k)
         then (if a = 1 then nan_to_zero (cells ?s 1)
               else if fst (window ?s a) = fst (window ?s 1)
               then seen_through ?s 1 (nan_to_zero (cells ?s 1)) a
               else cells ?s a)
         else cells ?s a)"
    using input_entities_after_call
             [of ?s 1 _ _ _ _ _ _ _ _ stub_lib "Fin 1" "Fin 2" 0 "''astropy''"]
    by blast
  have b0: "cells (snd (fconvolve stub_lib ?s (Fin 1) (Fin 2) 1 0 ''astropy'')) 0
              = \<lparr>shape = [2, 1, 2], dat = [NaN, Fin 3, Fin 4, NaN]\<rparr>"
    using n [rule_format, OF live(1)] by (simp add: c0)
  have th: "\<forall>a. cells (snd (fmaptheta_halfpolar ?s 1 False)) a =
      (let lo = (if False then Fin 180 else Fin 1); hi = (if False then Fin 360 else Fin 2);
           written = isub_masked (\<lambda>x. feq x hi) hi
                       (isub_masked (\<lambda>x. fge x lo \<and> fne x hi) lo (cells ?s 1))
       in if a = 1 then written
          else if fst (window ?s a) = fst (window ?s 1) then seen_through ?s 1 written a
          else cells ?s a)"
    using t by blast
  have wr: "isub_masked (\<lambda>x. feq x (Fin 2)) (Fin 2)
              (isub_masked (\<lambda>x. fge x (Fin 1) \<and> fne x (Fin 2)) (Fin 1) (cells ?s (Suc 0))) =
            \<lparr>shape = [Suc 0, 2], dat = [NaN, Fin 0]\<rparr>"
    by (simp add: c1 isub_masked_def fge_def fne_def feq_def fsub_def)
  have d1: "cells (snd (fmaptheta_halfpolar ?s 1 False)) 1 = \<lparr>shape = [1, 2], dat = [NaN, Fin 0]\<rparr>"
    using th [rule_format, of 1] by (simp add: Let_def wr)
  have d0: "cells (snd (fmaptheta_halfpolar ?s 1 False)) 0
              = \<lparr>shape = [2, 1, 2], dat = [NaN, Fin 0, Fin 4, NaN]\<rparr>"
    using th [rule_format, of 0] by (simp add: Let_def wr w0 w1 st)
  have e: "cells (snd (fmask_snr ?s 1 (Scalar (Fin 1)) (Fin 3))) 0 = cells ?s 0"
       "cells (snd (fmask_signal ?s 1 (Fin 3))) 0 = cells ?s 0"
       "cells (snd (fgradient gradient_stub ?s 1)) 0 = cells ?s 0"
       "cells (snd (fmaskinterp griddata_stub ?s 1 1)) 0 = cells ?s 0"
       "cells (snd (fhighlatmask ?s \<lparr>lon = 1, lat = 1\<rparr> (Fin 5))) 0 = cells ?s 0"
    using t live(1) by blast+
  note v = input_entities_after_call [where s = ?s and r = 1 and b = 0 and x = ?x]
  have out: "\<forall>j < length (dat (cells ?s 0)).
      snd (window ?s 0) ! j \<notin> set (snd (window ?s 1)) \<longrightarrow>
        dat (seen_through ?s 1 ?x 0) ! j = dat (cells ?s 0) ! j"
    using v by blast
  have shared: "distinct (snd (window ?s 1)) \<and> length (snd (window ?s 1)) = length (dat ?x) \<longrightarrow>
      (\<forall>j < length (dat (cells ?s 0)). \<forall>i < length (dat ?x).
         snd (window ?s 0) ! j = snd (window ?s 1) ! i \<longrightarrow>
           dat (seen_through ?s 1 ?x 0) ! j = dat ?x ! i)"
    using v by blast
  have v2: "dat (seen_through ?s 1 ?x 0) ! 2 = Fin 4"
    using out [rule_format, of 2] by (simp add: c0 w0 w1)
  have "distinct (snd (window ?s 1)) \<and> length (snd (window ?s 1)) = length (dat ?x)"
    by (simp add: w1)
  then have v0: "dat (seen_through ?s 1 ?x 0) ! 0 = Fin 0"
    using shared [rule_format, of 0 0] by (simp add: c0 w0 w1)
  show ?thesis
    unfolding a1 a0 b0 d1 d0 e c0 v0 v2 by simp
qed

text \<open>
  Claim C3 as stated fails: after \<^verbatim>\<open>fmaptheta_halfpolar(angles, deg=True)\<close> on an array
  holding 270, the caller's array holds 90.
\<close>

theorem fmaptheta_halfpolar_overwrites_input:
  "cells (single_store (vector [Fin 270])) 0 = vector [Fin 270] \<and>
   cells (snd (fmaptheta_halfpolar (single_store (vector [Fin 270])) 0 True)) 0 = vector [Fin 90] \<and>
   vector [Fin 90] \<noteq> vector [Fin 270]"
  by (simp add: fmaptheta_halfpolar_def Let_def put_def isub_masked_def single_store_def vector_def
        fge_def fne_def feq_def fsub_def)

text \<open>
  Claim C1, as the code has it. Whenever the value under the square root is negative,
  \<^verbatim>\<open>np.sqrt\<close> gives NaN: with a numeric \<^verbatim>\<open>CDELT2\<close> in the header the kernel size is
  NaN, no error is raised for it, and the call goes on to build the kernel and convolve
  with that kernel size. The kernel size fails in two cases only, whatever the two
  resolutions: an absent \<^verbatim>\<open>CDELT2\<close> raises KeyError and a \<^verbatim>\<open>CDELT2\<close> that is a
  string raises TypeError, and in both the call raises that error and changes nothing.
\<close>

theorem fconvolve_negative_radicand_is_silent:
  "(flt (fsub (fpow2 (fdiv newres fwhm_factor)) (fpow2 (fdiv oldres fwhm_factor))) (Fin 0) \<and>
    headers s header ''CDELT2'' = Some v \<and> hval_real v = Inr c \<longrightarrow>
      fconvolve_kernelsize oldres newres (headers s header) = Inr NaN \<and>
      fconvolve lib s oldres newres data header method = fconvolve_smooth lib s NaN data method) \<and>
   (\<forall>e. fconvolve_kernelsize oldres newres (headers s header) = Inl e \<longrightarrow>
      fconvolve lib s oldres newres data header method = (Inl e, s) \<and>
      ((headers s header ''CDELT2'' = None \<and> e = KeyError ''CDELT2'') \<or>
       ((\<exists>t. headers s header ''CDELT2'' = Some (StrV t)) \<and> e = TypeError))) \<and>
   (headers s header ''CDELT2'' = None \<longrightarrow>
      fconvolve lib s oldres newres data header method = (Inl (KeyError ''CDELT2''), s)) \<and>
   (headers s header ''CDELT2'' = Some (StrV t) \<longrightarrow>
      fconvolve lib s oldres newres data header method = (Inl TypeError, s))"
proof (intro conjI impI allI)
  assume a: "flt (fsub (fpow2 (fdiv newres fwhm_factor)) (fpow2 (fdiv oldres fwhm_factor))) (Fin 0) \<and>
    headers s header ''CDELT2'' = Some v \<and> hval_real v = Inr c"
  then show k: "fconvolve_kernelsize oldres newres (headers s header) = Inr NaN"
    using fconvolve_kernelsize_NaN [of newres oldres "headers s header" v c] by simp
  show "fconvolve lib s oldres newres data header method = fconvolve_smooth lib s NaN data method"
    by (simp add: fconvolve_def k)
next
  fix e assume "fconvolve_kernelsize oldres newres (headers s header) = Inl e"
  then show "fconvolve lib s oldres newres data header method = (Inl e, s)"
    by (simp add: fconvolve_def)
next
  fix e assume "fconvolve_kernelsize oldres newres (headers s header) = Inl e"
  then show "(headers s header ''CDELT2'' = None \<and> e = KeyError ''CDELT2'') \<or>
       ((\<exists>t. headers s header ''CDELT2'' = Some (StrV t)) \<and> e = TypeError)"
    by (rule fconvolve_kernelsize_errors)
next
  assume "headers s header ''CDELT2'' = None"
  then show "fconvolve lib s oldres newres data header method = (Inl (KeyError ''CDELT2''), s)"
    by (simp add: fconvolve_def fconvolve_kernelsize_def getitem_def Let_def)
next
  assume "headers s header ''CDELT2'' = Some (StrV t)"
  then show "fconvolve lib s oldres newres data header method = (Inl TypeError, s)"
    by (simp add: fconvolve_def fconvolve_kernelsize_def getitem_def Let_def)
qed

theorem fconvolve_negative_radicand_is_silent_witness:
  "fconvolve_kernelsize (Fin 2) (Fin 1) header_cdelt2 = Inr NaN \<and>
   fconvolve stub_lib (image_store \<lparr>shape = [1, 2], dat = [NaN, Fin 3]\<rparr> header_cdelt2)
       (Fin 2) (Fin 1) 0 0 ''scipy'' =
     fconvolve_smooth stub_lib (image_store \<lparr>shape = [1, 2], dat = [NaN, Fin 3]\<rparr> header_cdelt2)
       NaN 0 ''scipy'' \<and>
   fconvolve stub_lib (image_store \<lparr>shape = [1, 2], dat = [NaN, Fin 3]\<rparr> Map.empty)
       (Fin 2) (Fin 1) 0 0 ''scipy'' =
     (Inl (KeyError ''CDELT2''),
      image_store \<lparr>shape = [1, 2], dat = [NaN, Fin 3]\<rparr> Map.empty) \<and>
   fconvolve stub_lib
       (image_store \<lparr>shape = [1, 2], dat = [NaN, Fin 3]\<rparr> [''CDELT2'' \<mapsto> StrV ''abc''])
       (Fin 2) (Fin 1) 0 0 ''scipy'' =
     (Inl TypeError,
      image_store \<lparr>shape = [1, 2], dat = [NaN, Fin 3]\<rparr> [''CDELT2'' \<mapsto> StrV ''abc''])"
proof -
  let ?a = "\<lparr>shape = [1, 2], dat = [NaN, Fin 3]\<rparr>"
  have h: "headers (image_store a g) 0 = g" for a g
    by (simp add: image_store_def)
  note t1 = fconvolve_negative_radicand_is_silent
             [of "Fin 1" "Fin 2" "image_store ?a header_cdelt2" 0 "FloatV 1" 1 stub_lib 0
                 "''scipy''"]
  have c: "header_cdelt2 ''CDELT2'' = Some (FloatV 1)"
    by (simp add: header_cdelt2_def)
  have 1: "fconvolve_kernelsize (Fin 2) (Fin 1) header_cdelt2 = Inr NaN \<and>
     fconvolve stub_lib (image_store ?a header_cdelt2) (Fin 2) (Fin 1) 0 0 ''scipy'' =
       fconvolve_smooth stub_lib (image_store ?a header_cdelt2) NaN 0 ''scipy''"
    using t1 radicand_one_two c by (simp add: h)
  have 2: "fconvolve stub_lib (image_store ?a Map.empty) (Fin 2) (Fin 1) 0 0 ''scipy'' =
     (Inl (KeyError ''CDELT2''), image_store ?a Map.empty)"
    using fconvolve_negative_radicand_is_silent
             [of "Fin 1" "Fin 2" "image_store ?a Map.empty" 0 _ _ stub_lib 0 "''scipy''"]
    by (simp add: h)
  have 3: "fconvolve stub_lib (image_store ?a [''CDELT2'' \<mapsto> StrV ''abc''])
              (Fin 2) (Fin 1) 0 0 ''scipy'' =
     (Inl TypeError, image_store ?a [''CDELT2'' \<mapsto> StrV ''abc''])"
    using fconvolve_negative_radicand_is_silent
             [of "Fin 1" "Fin 2" "image_store ?a [''CDELT2'' \<mapsto> StrV ''abc'']" 0 _ _
                 stub_lib 0 "''scipy''" "''abc''"]
    by (simp add: h)
  from 1 2 3 show ?thesis by blast
qed

text \<open>
  Claim C1 as stated fails: with \<open>oldres = 2\<close>, \<open>newres = 1\<close> and \<open>CDELT2 = 1\<close> the
  kernel size is the value NaN, not an error.
\<close>

theorem fconvolve_kernelsize_no_domain_error:
  "fconvolve_kernelsize (Fin 2) (Fin 1) header_cdelt2 = Inr NaN"
  using fconvolve_kernelsize_NaN [of "Fin 1" "Fin 2" header_cdelt2 "FloatV 1" 1]
        radicand_one_two
  by (simp add: header_cdelt2_def)

text \<open>
  Claim C4, as the code has it. A header that \<^verbatim>\<open>fheader_3Dto2D\<close> returns has
  \<open>NAXIS = 2\<close> and none of the six keywords of \<^verbatim>\<open>keys_3D\<close> (NAXIS3, CDELT3, CROTA3,
  CRPIX3, CRVAL3, CTYPE3). With \<^verbatim>\<open>write=False\<close> the function returns such a header for
  every file that exists, and leaves the file system as it was.
\<close>

theorem fheader_3Dto2D_removes_listed_keys:
  "(\<forall>h2. fst (fheader_3Dto2D writeto fs filedir_in filedir_out write) = Inr h2 \<longrightarrow>
      h2 ''NAXIS'' = Some (IntV 2) \<and>
      h2 ''NAXIS3'' = None \<and> h2 ''CDELT3'' = None \<and> h2 ''CROTA3'' = None \<and>
      h2 ''CRPIX3'' = None \<and> h2 ''CRVAL3'' = None \<and> h2 ''CTYPE3'' = None) \<and>
   (\<forall>f. fs filedir_in = Some f \<longrightarrow>
      (\<exists>h2. fheader_3Dto2D writeto fs filedir_in filedir_out False = (Inr h2, fs)))"
proof (intro conjI allI impI)
  fix h2 assume r: "fst (fheader_3Dto2D writeto fs filedir_in filedir_out write) = Inr h2"
  from fheader_3Dto2D_returned [OF r] obtain f where
    f: "fs filedir_in = Some f" and
    h2: "h2 = (\<lambda>k. if k \<in> set keys_3D then None else ((fheader f)(''NAXIS'' \<mapsto> IntV 2)) k)"
    by blast
  show "h2 ''NAXIS'' = Some (IntV 2)" by (simp add: h2 keys_3D_def)
  show "h2 ''NAXIS3'' = None" by (simp add: h2 keys_3D_def)
  show "h2 ''CDELT3'' = None" by (simp add: h2 keys_3D_def)
  show "h2 ''CROTA3'' = None" by (simp add: h2 keys_3D_def)
  show "h2 ''CRPIX3'' = None" by (simp add: h2 keys_3D_def)
  show "h2 ''CRVAL3'' = None" by (simp add: h2 keys_3D_def)
  show "h2 ''CTYPE3'' = None" by (simp add: h2 keys_3D_def)
next
  fix f assume "fs filedir_in = Some f"
  then show "\<exists>h2. fheader_3Dto2D writeto fs filedir_in filedir_out False = (Inr h2, fs)"
    by (simp add: fheader_3Dto2D_no_write)
qed

theorem fheader_3Dto2D_removes_listed_keys_witness:
  "\<exists>h2. fheader_3Dto2D no_writer (one_file cube_1_nan_3 cube_header) ''cube.fits'' ''.'' False
           = (Inr h2, one_file cube_1_nan_3 cube_header) \<and>
         h2 ''NAXIS'' = Some (IntV 2) \<and> h2 ''NAXIS3'' = None \<and> h2 ''CTYPE3'' = None"
proof -
  let ?fs = "one_file cube_1_nan_3 cube_header"
  have f: "?fs ''cube.fits'' = Some \<lparr>fdata = cube_1_nan_3, fheader = cube_header\<rparr>"
    by (simp add: one_file_def)
  note t = fheader_3Dto2D_removes_listed_keys [of no_writer ?fs "''cube.fits''" "''.''" False]
  from t f obtain h2 where
    r: "fheader_3Dto2D no_writer ?fs ''cube.fits'' ''.'' False = (Inr h2, ?fs)"
    by blast
  then have r1: "fst (fheader_3Dto2D no_writer ?fs ''cube.fits'' ''.'' False) = Inr h2"
    by simp
  have "h2 ''NAXIS'' = Some (IntV 2) \<and> h2 ''NAXIS3'' = None \<and> h2 ''CTYPE3'' = None"
    using t r1 by blast
  then show ?thesis
    using r by blast
qed

text \<open>
  Claim C4 as stated fails: the header returned for a cube whose header carries
  \<^verbatim>\<open>CUNIT3\<close> has \<open>NAXIS = 2\<close> and still carries \<^verbatim>\<open>CUNIT3\<close>.
\<close>

theorem fheader_3Dto2D_keeps_CUNIT3:
  "map_sum id (\<lambda>h2. (h2 ''NAXIS'', h2 ''CUNIT3''))
     (fst (fheader_3Dto2D no_writer (one_file cube_1_nan_3 cube_header) ''cube.fits'' ''.'' False))
     = Inr (Some (IntV 2), Some (StrV ''Hz''))"
  by (simp add: fheader_3Dto2D_no_write one_file_def cube_header_def keys_3D_def)

text \<open>
  Claim C6. \<^verbatim>\<open>fheader_3Dto2D\<close> is idempotent: on a file whose header is a header the
  function returned, it returns that same header (with \<^verbatim>\<open>write=True\<close>, whenever it
  returns).
\<close>

theorem fheader_3Dto2D_idempotent:
  "fst (fheader_3Dto2D writeto fs filedir_in filedir_out write) = Inr h2 \<and>
   fs' path = Some f' \<and> fheader f' = h2 \<longrightarrow>
     fheader_3Dto2D writeto' fs' path out' False = (Inr h2, fs') \<and>
     (\<forall>h3. fst (fheader_3Dto2D writeto' fs' path out' True) = Inr h3 \<longrightarrow> h3 = h2)"
proof (intro impI)
  assume a: "fst (fheader_3Dto2D writeto fs filedir_in filedir_out write) = Inr h2 \<and>
             fs' path = Some f' \<and> fheader f' = h2"
  then have r: "fst (fheader_3Dto2D writeto fs filedir_in filedir_out write) = Inr h2"
    by simp
  from fheader_3Dto2D_returned [OF r] obtain f where
    f: "fs filedir_in = Some f" and
    h2: "h2 = (\<lambda>k. if k \<in> set keys_3D then None else ((fheader f)(''NAXIS'' \<mapsto> IntV 2)) k)"
    by blast
  have again: "(\<lambda>k. if k \<in> set keys_3D then None else (h2(''NAXIS'' \<mapsto> IntV 2)) k) = h2"
    by (auto simp: h2 fun_eq_iff)
  from a have fs': "fs' path = Some f'" and hf: "fheader f' = h2"
    by simp_all
  have one: "fheader_3Dto2D writeto' fs' path out' False = (Inr h2, fs')"
    using fheader_3Dto2D_no_write [of fs' path f' writeto' out'] fs'
    unfolding hf again by simp
  have two: "\<forall>h3. fst (fheader_3Dto2D writeto' fs' path out' True) = Inr h3 \<longrightarrow> h3 = h2"
  proof (intro allI impI)
    fix h3 assume "fst (fheader_3Dto2D writeto' fs' path out' True) = Inr h3"
    from fheader_3Dto2D_returned [OF this] fs' have
      "h3 = (\<lambda>k. if k \<in> set keys_3D then None else ((fheader f')(''NAXIS'' \<mapsto> IntV 2)) k)"
      by auto
    then show "h3 = h2"
      unfolding hf again .
  qed
  from one two show "fheader_3Dto2D writeto' fs' path out' False = (Inr h2, fs') \<and>
     (\<forall>h3. fst (fheader_3Dto2D writeto' fs' path out' True) = Inr h3 \<longrightarrow> h3 = h2)"
    by simp
qed

theorem fheader_3Dto2D_idempotent_witness:
  "\<exists>h2. fst (fheader_3Dto2D no_writer (one_file cube_1_nan_3 cube_header) ''cube.fits'' ''.'' False)
           = Inr h2 \<and>
         fheader_3Dto2D no_writer (one_file cube_1_nan_3 h2) ''cube.fits'' ''.'' False
           = (Inr h2, one_file cube_1_nan_3 h2)"
proof -
  let ?fs = "one_file cube_1_nan_3 cube_header"
  obtain h2 where
    r: "fst (fheader_3Dto2D no_writer ?fs ''cube.fits'' ''.'' False) = Inr h2"
    by (simp add: fheader_3Dto2D_no_write one_file_def)
  have f: "one_file cube_1_nan_3 h2 ''cube.fits'' = Some \<lparr>fdata = cube_1_nan_3, fheader = h2\<rparr>"
    by (simp add: one_file_def)
  from fheader_3Dto2D_idempotent
         [of no_writer ?fs "''cube.fits''" "''.''" False h2 "one_file cube_1_nan_3 h2"
             "''cube.fits''" "\<lparr>fdata = cube_1_nan_3, fheader = h2\<rparr>" no_writer "''.''"] r f
  have "fheader_3Dto2D no_writer (one_file cube_1_nan_3 h2) ''cube.fits'' ''.'' False
          = (Inr h2, one_file cube_1_nan_3 h2)"
    by simp
  with r show ?thesis by blast
qed


section \<open>ffreqaxis\<close>

lemma sint_in_int64: "in_int64 (sint (w :: 64 word))"
  using sint_ge [of w] sint_lt [of w] by (simp add: in_int64_def)

lemma sint_word_of_int_exact: "in_int64 k \<Longrightarrow> sint (word_of_int k :: 64 word) = k"
  by (simp add: in_int64_def sint_sbintrunc' signed_take_bit_int_eq_self)

lemma sint_sub_exact:
  "in_int64 (sint a - sint b) \<Longrightarrow> sint (a - b :: 64 word) = sint a - sint b"
  using sint_word_of_int_exact [of "sint a - sint b"] by simp

lemma sint_add_exact:
  "in_int64 (sint a + sint b) \<Longrightarrow> sint (a + b :: 64 word) = sint a + sint b"
  using sint_word_of_int_exact [of "sint a + sint b"] by simp

lemma sint_mul_exact:
  "in_int64 (sint a * sint b) \<Longrightarrow> sint (a * b :: 64 word) = sint a * sint b"
  using sint_word_of_int_exact [of "sint a * sint b"] by simp

text \<open>The pixel numbers \<open>1, \<dots>, NAXIS3\<close> are computed without wrap-around.\<close>

lemma sint_pixel:
  assumes "i < nat (sint (n :: 64 word))"
  shows "sint (of_nat i + 1 :: 64 word) = int i + 1"
proof -
  have "int i + 1 \<le> sint n" using assms by simp
  moreover have "sint n < 2 ^ 63" using sint_lt [of n] by simp
  ultimately have "in_int64 (int i + 1)" by (simp add: in_int64_def)
  then show ?thesis
    using sint_word_of_int_exact [of "int i + 1"] by simp
qed

text \<open>One sample of the axis, when no integer step wraps around.\<close>

lemma freq_sample:
  assumes "i < nat (sint (n :: 64 word))"
    and "hval_npnum v1 = Inr crval" "hval_npnum v2 = Inr crpix" "hval_npnum v3 = Inr cdelt"
    and "int64_exact v2 v3 v1 i"
  shows "npnum_real (np_add crval (np_mul (np_sub (np_add (Int64 (of_nat i)) (Int64 1)) crpix) cdelt)) =
           npnum_real crval + ((real i + 1) - npnum_real crpix) * npnum_real cdelt"
proof -
  have px: "sint (of_nat i + 1 :: 64 word) = int i + 1"
    using assms(1) by (rule sint_pixel)
  show ?thesis
  proof (cases v2)
    case (IntV p)
    then have cp: "crpix = Int64 p" using assms(3) by simp
    have e1: "in_int64 (int i + 1 - sint p)"
      using assms(5) IntV by (cases v3; cases v1) simp_all
    have d: "sint (of_nat i + 1 - p) = int i + 1 - sint p"
      using sint_sub_exact [of "of_nat i + 1" p] e1 px by simp
    show ?thesis
    proof (cases v3)
      case (IntV dl)
      note v3 = this
      then have cd: "cdelt = Int64 dl" using assms(4) by simp
      have e2: "in_int64 ((int i + 1 - sint p) * sint dl)"
        using assms(5) \<open>v2 = IntV p\<close> v3 by (cases v1) simp_all
      have m: "sint ((of_nat i + 1 - p) * dl) = (int i + 1 - sint p) * sint dl"
        using sint_mul_exact [of "of_nat i + 1 - p" dl] e2 d by simp
      show ?thesis
      proof (cases v1)
        case (IntV vl)
        then have cv: "crval = Int64 vl" using assms(2) by simp
        have e3: "in_int64 (sint vl + (int i + 1 - sint p) * sint dl)"
          using assms(5) \<open>v2 = IntV p\<close> v3 IntV by simp
        have "sint (vl + (of_nat i + 1 - p) * dl) = sint vl + (int i + 1 - sint p) * sint dl"
          using sint_add_exact [of vl "(of_nat i + 1 - p) * dl"] e3 m by simp
        then show ?thesis
          by (simp add: cp cd cv)
      next
        case (FloatV r)
        then show ?thesis using assms(2) m by (auto simp: cp cd)
      next
        case (StrV t)
        then show ?thesis using assms(2) by simp
      qed
    next
      case (FloatV r)
      then have "cdelt = Float64 r" using assms(4) by simp
      then show ?thesis using d by (simp add: cp)
    next
      case (StrV t)
      then show ?thesis using assms(4) by simp
    qed
  next
    case (FloatV r)
    then have "crpix = Float64 r" using assms(3) by simp
    then show ?thesis using px by simp
  next
    case (StrV t)
    then show ?thesis using assms(3) by simp
  qed
qed

lemma hval_npnum_real:
  "hval_real v = Inr r \<Longrightarrow> \<exists>x. hval_npnum v = Inr x \<and> npnum_real x = r"
  by (cases v) auto

lemma ffreqaxis_eval:
  assumes "fs file = Some f"
    and "fheader f ''CRVAL3'' = Some v1" "hval_npnum v1 = Inr crval"
    and "fheader f ''CRPIX3'' = Some v2" "hval_npnum v2 = Inr crpix"
    and "fheader f ''CDELT3'' = Some v3" "hval_npnum v3 = Inr cdelt"
    and "fheader f ''NAXIS3'' = Some (IntV n)"
  shows "ffreqaxis fs file =
           Inr (map (\<lambda>i. np_add crval (np_mul (np_sub (np_add (Int64 (of_nat i)) (Int64 1)) crpix) cdelt))
                    [0..<nat (sint n)])"
  using assms by (simp add: ffreqaxis_def getheader_def getitem_def Let_def comp_def)

lemma ffreqaxis_missing:
  assumes "fs file = Some f"
    and "fheader f ''CRVAL3'' = None \<or> fheader f ''CRPIX3'' = None \<or>
         fheader f ''CDELT3'' = None \<or> fheader f ''NAXIS3'' = None"
  shows "\<exists>key. ffreqaxis fs file = Inl (KeyError key)"
  using assms
  by (auto simp: ffreqaxis_def getheader_def getitem_def split: option.splits)

text \<open>At the reference pixel the integer steps give 0, 0 and \<^verbatim>\<open>CRVAL3\<close>.\<close>

lemma int64_exact_reference:
  assumes "hval_real v2 = Inr (real_of_int k)" "1 \<le> k"
  shows "int64_exact v2 v3 v1 (nat (k - 1))"
proof (cases v2)
  case (IntV p)
  then have "real_of_int (sint p) = real_of_int k"
    using assms(1) by (simp del: of_int_sint)
  then have "sint p = k" by (simp only: of_int_eq_iff)
  then have z: "int (nat (k - 1)) + 1 - sint p = 0" using assms(2) by simp
  have e1: "in_int64 (int (nat (k - 1)) + 1 - sint p)"
    unfolding z by (simp add: in_int64_def)
  have e2: "in_int64 ((int (nat (k - 1)) + 1 - sint p) * sint d)" for d :: "64 word"
    unfolding z by (simp add: in_int64_def)
  have e3: "in_int64 (sint v + (int (nat (k - 1)) + 1 - sint p) * sint d)" for v d :: "64 word"
    unfolding z using sint_in_int64 [of v] by simp
  show ?thesis
    unfolding IntV
    by (cases v3; cases v1) (simp_all only: int64_exact.simps e1 e2 e3 simp_thms)
next
  case (FloatV r)
  then show ?thesis by simp
next
  case (StrV t)
  then show ?thesis using assms(1) by simp
qed

lemma header_axis_keys:
  "header_axis k ''CRVAL3'' = Some (FloatV 10)"
  "header_axis k ''CRPIX3'' = Some (IntV k)"
  "header_axis k ''CDELT3'' = Some (FloatV 1)"
  "header_axis k ''NAXIS3'' = Some (IntV 3)"
  by (simp_all add: header_axis_def)

lemma header_wide_keys:
  "header_wide ''CRVAL3'' = Some (IntV 0)"
  "header_wide ''CRPIX3'' = Some (IntV 1)"
  "header_wide ''CDELT3'' = Some (IntV 5000000000000000000)"
  "header_wide ''NAXIS3'' = Some (IntV 3)"
  by (simp_all add: header_wide_def)

lemma upt_3: "[0..<3] = [0, 1, 2::nat]"
  by (simp add: upt_rec numeral_3_eq_3)

lemma ffreqaxis_header_axis_2:
  "ffreqaxis (one_file cube_1_nan_3 (header_axis 2)) ''cube.fits'' =
     Inr [Float64 9, Float64 10, Float64 11]"
proof -
  have f: "one_file cube_1_nan_3 (header_axis 2) ''cube.fits'' =
             Some \<lparr>fdata = cube_1_nan_3, fheader = header_axis 2\<rparr>"
    by (simp add: one_file_def)
  have n: "nat (sint (3 :: 64 word)) = 3"
    by simp
  show ?thesis
    using ffreqaxis_eval [of "one_file cube_1_nan_3 (header_axis 2)" "''cube.fits''"
        "\<lparr>fdata = cube_1_nan_3, fheader = header_axis 2\<rparr>"
        "FloatV 10" "Float64 10" "IntV 2" "Int64 2" "FloatV 1" "Float64 1" 3] f
    by (simp add: header_axis_keys n upt_3)
qed

lemma ffreqaxis_header_axis_0:
  "ffreqaxis (one_file cube_1_nan_3 (header_axis 0)) ''cube.fits'' =
     Inr [Float64 11, Float64 12, Float64 13]"
proof -
  have f: "one_file cube_1_nan_3 (header_axis 0) ''cube.fits'' =
             Some \<lparr>fdata = cube_1_nan_3, fheader = header_axis 0\<rparr>"
    by (simp add: one_file_def)
  have n: "nat (sint (3 :: 64 word)) = 3"
    by simp
  show ?thesis
    using ffreqaxis_eval [of "one_file cube_1_nan_3 (header_axis 0)" "''cube.fits''"
        "\<lparr>fdata = cube_1_nan_3, fheader = header_axis 0\<rparr>"
        "FloatV 10" "Float64 10" "IntV 0" "Int64 0" "FloatV 1" "Float64 1" 3] f
    by (simp add: header_axis_keys n upt_3)
qed

lemma ffreqaxis_header_wide:
  "ffreqaxis (one_file cube_1_nan_3 header_wide) ''cube.fits'' =
     Inr [Int64 0, Int64 5000000000000000000, Int64 10000000000000000000]"
proof -
  have f: "one_file cube_1_nan_3 header_wide ''cube.fits'' =
             Some \<lparr>fdata = cube_1_nan_3, fheader = header_wide\<rparr>"
    by (simp add: one_file_def)
  have n: "nat (sint (3 :: 64 word)) = 3"
    by simp
  show ?thesis
    using ffreqaxis_eval [of "one_file cube_1_nan_3 header_wide" "''cube.fits''"
        "\<lparr>fdata = cube_1_nan_3, fheader = header_wide\<rparr>"
        "IntV 0" "Int64 0" "IntV 1" "Int64 1" "IntV 5000000000000000000"
        "Int64 5000000000000000000" 3] f
    by (simp add: header_wide_keys n upt_3)
qed

text \<open>
  Claim C5, as the code has it. For a header with the four keywords, numeric values and a
  non-negative integer \<^verbatim>\<open>NAXIS3\<close>, \<^verbatim>\<open>ffreqaxis\<close> returns an axis of length
  \<^verbatim>\<open>NAXIS3\<close>, with \<open>axis[i] = CRVAL3 + ((i+1) - CRPIX3) * CDELT3\<close> for every \<open>i\<close> below
  \<^verbatim>\<open>NAXIS3\<close> at which no step of the computation done on 64-bit integers leaves their
  range; when \<^verbatim>\<open>CRPIX3\<close> is an integer from 1 to \<^verbatim>\<open>NAXIS3\<close>,
  \<open>axis[CRPIX3-1] = CRVAL3\<close>. When one of the four keywords is absent the call fails with
  KeyError.
\<close>

theorem ffreqaxis_linear_axis:
  "(fs file = Some f \<and>
    fheader f ''CRVAL3'' = Some v1 \<and> hval_real v1 = Inr crval \<and>
    fheader f ''CRPIX3'' = Some v2 \<and> hval_real v2 = Inr crpix \<and>
    fheader f ''CDELT3'' = Some v3 \<and> hval_real v3 = Inr cdelt \<and>
    fheader f ''NAXIS3'' = Some (IntV n) \<and> 0 \<le> sint n \<longrightarrow>
      (\<exists>axis. ffreqaxis fs file = Inr axis \<and> int (length axis) = sint n \<and>
         (\<forall>i < nat (sint n). int64_exact v2 v3 v1 i \<longrightarrow>
            npnum_real (axis ! i) = crval + ((real i + 1) - crpix) * cdelt) \<and>
         (\<forall>k. crpix = real_of_int k \<and> 1 \<le> k \<and> k \<le> sint n \<longrightarrow>
            (\<exists>x. py_index axis (k - 1) = Inr x \<and> npnum_real x = crval)))) \<and>
   (fs file = Some f \<and>
    (fheader f ''CRVAL3'' = None \<or> fheader f ''CRPIX3'' = None \<or>
     fheader f ''CDELT3'' = None \<or> fheader f ''NAXIS3'' = None) \<longrightarrow>
      (\<exists>key. ffreqaxis fs file = Inl (KeyError key)))"
proof (intro conjI impI)
  assume a: "fs file = Some f \<and>
    fheader f ''CRVAL3'' = Some v1 \<and> hval_real v1 = Inr crval \<and>
    fheader f ''CRPIX3'' = Some v2 \<and> hval_real v2 = Inr crpix \<and>
    fheader f ''CDELT3'' = Some v3 \<and> hval_real v3 = Inr cdelt \<and>
    fheader f ''NAXIS3'' = Some (IntV n) \<and> 0 \<le> sint n"
  from a obtain c1 where c1: "hval_npnum v1 = Inr c1" "npnum_real c1 = crval"
    using hval_npnum_real [of v1 crval] by blast
  from a obtain c2 where c2: "hval_npnum v2 = Inr c2" "npnum_real c2 = crpix"
    using hval_npnum_real [of v2 crpix] by blast
  from a obtain c3 where c3: "hval_npnum v3 = Inr c3" "npnum_real c3 = cdelt"
    using hval_npnum_real [of v3 cdelt] by blast
  let ?g = "\<lambda>i. np_add c1 (np_mul (np_sub (np_add (Int64 (of_nat i)) (Int64 1)) c2) c3)"
  let ?axis = "map ?g [0..<nat (sint n)]"
  have e: "ffreqaxis fs file = Inr ?axis"
    using a c1(1) c2(1) c3(1) ffreqaxis_eval [of fs "file" f v1 c1 v2 c2 v3 c3 n] by simp
  have l: "int (length ?axis) = sint n"
    using a by simp
  have p: "\<forall>i < nat (sint n). int64_exact v2 v3 v1 i \<longrightarrow>
             npnum_real (?axis ! i) = crval + ((real i + 1) - crpix) * cdelt"
  proof (intro allI impI)
    fix i assume i: "i < nat (sint n)" and x: "int64_exact v2 v3 v1 i"
    have "npnum_real (?g i) = npnum_real c1 + ((real i + 1) - npnum_real c2) * npnum_real c3"
      using i c1(1) c2(1) c3(1) x by (rule freq_sample)
    then show "npnum_real (?axis ! i) = crval + ((real i + 1) - crpix) * cdelt"
      using i by (simp only: nth_map_upt add_0 c1(2) c2(2) c3(2) length_upt minus_nat.diff_0)
  qed
  have r: "\<forall>k. crpix = real_of_int k \<and> 1 \<le> k \<and> k \<le> sint n \<longrightarrow>
             (\<exists>x. py_index ?axis (k - 1) = Inr x \<and> npnum_real x = crval)"
  proof (intro allI impI)
    fix k assume k: "crpix = real_of_int k \<and> 1 \<le> k \<and> k \<le> sint n"
    then have b: "0 \<le> k - 1" "k - 1 < int (length ?axis)" and lt: "nat (k - 1) < nat (sint n)"
      by simp_all
    have "hval_real v2 = Inr (real_of_int k)" using a k by simp
    then have "int64_exact v2 v3 v1 (nat (k - 1))"
      using k by (simp only: int64_exact_reference)
    then have "npnum_real (?axis ! nat (k - 1)) =
                 crval + ((real (nat (k - 1)) + 1) - crpix) * cdelt"
      using p lt by blast
    moreover have "real (nat (k - 1)) + 1 = real_of_int k"
      using k by simp
    ultimately have "npnum_real (?axis ! nat (k - 1)) = crval"
      using k by simp
    moreover have "py_index ?axis (k - 1) = Inr (?axis ! nat (k - 1))"
      using b unfolding py_index_def by (simp only: if_True simp_thms)
    ultimately show "\<exists>x. py_index ?axis (k - 1) = Inr x \<and> npnum_real x = crval"
      by blast
  qed
  from e l p r show "\<exists>axis. ffreqaxis fs file = Inr axis \<and> int (length axis) = sint n \<and>
         (\<forall>i < nat (sint n). int64_exact v2 v3 v1 i \<longrightarrow>
            npnum_real (axis ! i) = crval + ((real i + 1) - crpix) * cdelt) \<and>
         (\<forall>k. crpix = real_of_int k \<and> 1 \<le> k \<and> k \<le> sint n \<longrightarrow>
            (\<exists>x. py_index axis (k - 1) = Inr x \<and> npnum_real x = crval))"
    by blast
next
  assume "fs file = Some f \<and>
    (fheader f ''CRVAL3'' = None \<or> fheader f ''CRPIX3'' = None \<or>
     fheader f ''CDELT3'' = None \<or> fheader f ''NAXIS3'' = None)"
  then show "\<exists>key. ffreqaxis fs file = Inl (KeyError key)"
    using ffreqaxis_missing by blast
qed

theorem ffreqaxis_linear_axis_witness:
  "ffreqaxis (one_file cube_1_nan_3 (header_axis 2)) ''cube.fits'' =
     Inr [Float64 9, Float64 10, Float64 11] \<and>
   py_index [Float64 9, Float64 10, Float64 11] (2 - 1) = Inr (Float64 10) \<and>
   (\<exists>axis. ffreqaxis (one_file cube_1_nan_3 header_wide) ''cube.fits'' = Inr axis \<and>
      npnum_real (axis ! 1) = 5000000000000000000) \<and>
   (\<exists>key. ffreqaxis (one_file cube_1_nan_3 cube_header) ''cube.fits'' = Inl (KeyError key))"
proof -
  let ?fs = "one_file cube_1_nan_3 (header_axis 2)"
  let ?f = "\<lparr>fdata = cube_1_nan_3, fheader = header_axis 2\<rparr>"
  let ?ws = "one_file cube_1_nan_3 header_wide"
  let ?w = "\<lparr>fdata = cube_1_nan_3, fheader = header_wide\<rparr>"
  let ?g = "\<lparr>fdata = cube_1_nan_3, fheader = cube_header\<rparr>"
  have f: "?fs ''cube.fits'' = Some ?f"
    by (simp add: one_file_def)
  have w: "?ws ''cube.fits'' = Some ?w"
    by (simp add: one_file_def)
  have g: "one_file cube_1_nan_3 cube_header ''cube.fits'' = Some ?g"
    by (simp add: one_file_def)
  have e: "ffreqaxis ?fs ''cube.fits'' = Inr [Float64 9, Float64 10, Float64 11]"
    by (rule ffreqaxis_header_axis_2)
  have i: "py_index [Float64 9, Float64 10, Float64 11] (2 - 1) = Inr (Float64 10)"
    by (simp add: py_index_def)
  have x: "int64_exact (IntV 1) (IntV 5000000000000000000) (IntV 0) 1"
    by (simp add: in_int64_def)
  from ffreqaxis_linear_axis
         [of ?ws "''cube.fits''" ?w "IntV 0" 0 "IntV 1" 1 "IntV 5000000000000000000"
             5000000000000000000 3] w x
  have wd: "\<exists>axis. ffreqaxis ?ws ''cube.fits'' = Inr axis \<and>
              npnum_real (axis ! 1) = 5000000000000000000"
    by (auto simp: header_wide_keys)
  from ffreqaxis_linear_axis
         [of "one_file cube_1_nan_3 cube_header" "''cube.fits''" ?g "FloatV 10" 10 "IntV 2" 2
             "FloatV 1" 1 3] g
  have m: "\<exists>key. ffreqaxis (one_file cube_1_nan_3 cube_header) ''cube.fits'' = Inl (KeyError key)"
    by (simp add: cube_header_def)
  from e i wd m show ?thesis by simp
qed

text \<open>
  Claim C5 as stated fails, in two ways. A header may place the reference pixel outside
  the axis: with \<open>CRPIX3 = 0\<close>, \<open>CRVAL3 = 10\<close>, \<open>CDELT3 = 1\<close> and \<open>NAXIS3 = 3\<close> the axis
  is \<open>[11, 12, 13]\<close>, and \<open>axis[CRPIX3-1]\<close>, which is \<open>axis[-1]\<close>, is 13 and not 10. And
  with integer values throughout the axis is computed on 64-bit integers: with
  \<open>CRPIX3 = 1\<close>, \<open>CRVAL3 = 0\<close>, \<open>CDELT3 = 5000000000000000000\<close> and \<open>NAXIS3 = 3\<close> the
  sample \<open>axis[2]\<close> is -8446744073709551616, where the formula gives 10000000000000000000.
\<close>

theorem ffreqaxis_reference_pixel_outside:
  "ffreqaxis (one_file cube_1_nan_3 (header_axis 0)) ''cube.fits'' =
     Inr [Float64 11, Float64 12, Float64 13] \<and>
   header_axis 0 ''CRPIX3'' = Some (IntV 0) \<and> header_axis 0 ''CRVAL3'' = Some (FloatV 10) \<and>
   py_index [Float64 11, Float64 12, Float64 13] (0 - 1) = Inr (Float64 13) \<and>
   ffreqaxis (one_file cube_1_nan_3 header_wide) ''cube.fits'' =
     Inr [Int64 0, Int64 5000000000000000000, Int64 10000000000000000000] \<and>
   npnum_real (Int64 10000000000000000000) = - 8446744073709551616 \<and>
   (0 + ((2 + 1) - 1) * 5000000000000000000 :: real) = 10000000000000000000"
  using ffreqaxis_header_axis_0 ffreqaxis_header_wide
  by (simp add: header_axis_keys py_index_def)

section \<open>fcubeavg\<close>

lemma fadd_zero: "fadd x (Fin 0) = x"
  by (cases x) simp_all

lemma foldl_nan_as_zero:
  "foldl fadd acc (map (\<lambda>x. if isnan x then Fin 0 else x) xs) =
   foldl fadd acc (filter (\<lambda>x. \<not> isnan x) xs)"
  by (induction xs arbitrary: acc) (simp_all add: fadd_zero)

lemma nanmean1_filter:
  "nanmean1 xs =
     fdiv (foldl fadd (Fin 0) (filter (\<lambda>x. \<not> isnan x) xs))
          (Fin (real (length (filter (\<lambda>x. \<not> isnan x) xs))))"
  by (simp add: nanmean1_def foldl_nan_as_zero)

lemma nanmean1_all_nan:
  assumes "\<forall>x \<in> set xs. isnan x"
  shows "nanmean1 xs = NaN"
proof -
  have "filter (\<lambda>x. \<not> isnan x) xs = []"
    using assms by (simp add: filter_empty_conv)
  then show ?thesis
    by (simp add: nanmean1_filter)
qed

lemma fcubeavg_returned:
  assumes "fs filedir_in = Some f" "shape (fdata f) = [nz, ny, nx]"
    and "fst (fcubeavg writeto fs filedir_in filedir_out write) = Inr (avg, hdr)"
  shows "avg = \<lparr>shape = [ny, nx],
                dat = map (\<lambda>q. nanmean1 (map (\<lambda>k. dat (fdata f) ! (k * (ny * nx) + q)) [0..<nz]))
                          [0..<ny * nx]\<rparr>"
  using assms
  by (auto simp: fcubeavg_def getdata_def np_nanmean_axis0_def axis0_samples_def
        fheader_3Dto2D_no_write split: sum.splits if_splits)

lemma fcubeavg_no_write:
  assumes "fs filedir_in = Some f" "shape (fdata f) = [nz, ny, nx]"
  shows "\<exists>avg hdr. fcubeavg writeto fs filedir_in filedir_out False = (Inr (avg, hdr), fs)"
  using assms
  by (simp add: fcubeavg_def getdata_def np_nanmean_axis0_def fheader_3Dto2D_no_write)

lemma fcubeavg_example:
  "map_sum id fst
     (fst (fcubeavg no_writer (one_file cube_1_nan_3 cube_header) ''cube.fits'' ''avg.fits'' False))
     = Inr \<lparr>shape = [1, 2], dat = [Fin 2, Fin 2]\<rparr>"
proof -
  have u: "[0..<3] = [0, 1, 2::nat]" "[0..<2] = [0, 1::nat]"
    by (simp_all add: upt_rec numeral_3_eq_3 numeral_2_eq_2)
  have f: "one_file cube_1_nan_3 cube_header ''cube.fits'' =
             Some \<lparr>fdata = cube_1_nan_3, fheader = cube_header\<rparr>"
    by (simp add: one_file_def)
  have g: "getdata (one_file cube_1_nan_3 cube_header) ''cube.fits'' =
             Inr (cube_1_nan_3, cube_header)"
    by (simp add: getdata_def f)
  have m: "np_nanmean_axis0 cube_1_nan_3 = Inr \<lparr>shape = [1, 2], dat = [Fin 2, Fin 2]\<rparr>"
    by (simp add: np_nanmean_axis0_def axis0_samples_def cube_1_nan_3_def nanmean1_def u)
  have h: "fheader_3Dto2D no_writer (one_file cube_1_nan_3 cube_header) ''cube.fits'' ''.'' False =
             (Inr (\<lambda>k. if k \<in> set keys_3D then None
                       else ((fheader \<lparr>fdata = cube_1_nan_3, fheader = cube_header\<rparr>)
                               (''NAXIS'' \<mapsto> IntV 2)) k),
              one_file cube_1_nan_3 cube_header)"
    using fheader_3Dto2D_no_write
            [of "one_file cube_1_nan_3 cube_header" "''cube.fits''"
                "\<lparr>fdata = cube_1_nan_3, fheader = cube_header\<rparr>" no_writer "''.''"] f
    by simp
  show ?thesis
    unfolding fcubeavg_def g h by (simp add: m)
qed

text \<open>
  Claim C8. For a cube of shape \<open>(nz, ny, nx)\<close>, the average \<^verbatim>\<open>fcubeavg\<close> returns has
  shape \<open>(ny, nx)\<close>, and at every pixel it is the sum of the samples along axis 0 that are
  not NaN divided by their number: a NaN sample contributes nothing. Where every sample
  along axis 0 is NaN the average is NaN. With \<^verbatim>\<open>write=False\<close> the call returns for every
  file that holds a cube. On a cube whose pixels all hold the samples 1, NaN, 3 the average
  is 2 at every pixel.
\<close>

theorem fcubeavg_nan_aware_mean:
  "(fs filedir_in = Some f \<and> shape (fdata f) = [nz, ny, nx] \<longrightarrow>
      (\<forall>avg hdr. fst (fcubeavg writeto fs filedir_in filedir_out write) = Inr (avg, hdr) \<longrightarrow>
         shape avg = [ny, nx] \<and> length (dat avg) = ny * nx \<and>
         (\<forall>q < ny * nx.
            dat avg ! q =
              fdiv (foldl fadd (Fin 0)
                      (filter (\<lambda>x. \<not> isnan x)
                         (map (\<lambda>k. dat (fdata f) ! (k * (ny * nx) + q)) [0..<nz])))
                   (Fin (real (length
                      (filter (\<lambda>x. \<not> isnan x)
                         (map (\<lambda>k. dat (fdata f) ! (k * (ny * nx) + q)) [0..<nz]))))) \<and>
            ((\<forall>k < nz. isnan (dat (fdata f) ! (k * (ny * nx) + q))) \<longrightarrow> dat avg ! q = NaN))) \<and>
      (\<exists>avg hdr. fcubeavg writeto fs filedir_in filedir_out False = (Inr (avg, hdr), fs))) \<and>
   map_sum id fst
     (fst (fcubeavg no_writer (one_file cube_1_nan_3 cube_header) ''cube.fits'' ''avg.fits'' False))
     = Inr \<lparr>shape = [1, 2], dat = [Fin 2, Fin 2]\<rparr>"
proof (intro conjI impI allI)
  fix avg hdr
  assume a: "fs filedir_in = Some f \<and> shape (fdata f) = [nz, ny, nx]"
    and r: "fst (fcubeavg writeto fs filedir_in filedir_out write) = Inr (avg, hdr)"
  have avg: "avg = \<lparr>shape = [ny, nx],
                dat = map (\<lambda>q. nanmean1 (map (\<lambda>k. dat (fdata f) ! (k * (ny * nx) + q)) [0..<nz]))
                          [0..<ny * nx]\<rparr>"
    using a r fcubeavg_returned [of fs filedir_in f nz ny nx writeto filedir_out "write" avg hdr]
    by simp
  show "shape avg = [ny, nx]" by (simp add: avg)
  show "length (dat avg) = ny * nx" by (simp add: avg)
  fix q assume q: "q < ny * nx"
  show "dat avg ! q =
              fdiv (foldl fadd (Fin 0)
                      (filter (\<lambda>x. \<not> isnan x)
                         (map (\<lambda>k. dat (fdata f) ! (k * (ny * nx) + q)) [0..<nz])))
                   (Fin (real (length
                      (filter (\<lambda>x. \<not> isnan x)
                         (map (\<lambda>k. dat (fdata f) ! (k * (ny * nx) + q)) [0..<nz])))))"
    using q by (simp add: avg nanmean1_filter)
  assume "\<forall>k < nz. isnan (dat (fdata f) ! (k * (ny * nx) + q))"
  then have "\<forall>x \<in> set (map (\<lambda>k. dat (fdata f) ! (k * (ny * nx) + q)) [0..<nz]). isnan x"
    by auto
  then have "nanmean1 (map (\<lambda>k. dat (fdata f) ! (k * (ny * nx) + q)) [0..<nz]) = NaN"
    by (rule nanmean1_all_nan)
  then show "dat avg ! q = NaN"
    using q by (simp add: avg)
next
  assume "fs filedir_in = Some f \<and> shape (fdata f) = [nz, ny, nx]"
  then show "\<exists>avg hdr. fcubeavg writeto fs filedir_in filedir_out False = (Inr (avg, hdr), fs)"
    using fcubeavg_no_write by blast
next
  show "map_sum id fst
     (fst (fcubeavg no_writer (one_file cube_1_nan_3 cube_header) ''cube.fits'' ''avg.fits'' False))
     = Inr \<lparr>shape = [1, 2], dat = [Fin 2, Fin 2]\<rparr>"
    by (rule fcubeavg_example)
qed

theorem fcubeavg_nan_aware_mean_witness:
  "\<exists>avg hdr.
     fcubeavg no_writer (one_file \<lparr>shape = [2, 1, 2], dat = [NaN, Fin 4, NaN, Fin 6]\<rparr> cube_header)
       ''cube.fits'' ''avg.fits'' False
       = (Inr (avg, hdr), one_file \<lparr>shape = [2, 1, 2], dat = [NaN, Fin 4, NaN, Fin 6]\<rparr> cube_header) \<and>
     shape avg = [1, 2] \<and> dat avg ! 0 = NaN \<and> dat avg ! 1 = Fin 5"
proof -
  let ?c = "\<lparr>shape = [2, 1, 2], dat = [NaN, Fin 4, NaN, Fin 6]\<rparr>"
  let ?fs = "one_file ?c cube_header"
  let ?f = "\<lparr>fdata = ?c, fheader = cube_header\<rparr>"
  have f: "?fs ''cube.fits'' = Some ?f" "shape (fdata ?f) = [2, 1, 2]"
    by (simp_all add: one_file_def)
  have u: "[0..<2] = [0, 1::nat]"
    by (simp add: upt_rec numeral_2_eq_2)
  note t = fcubeavg_nan_aware_mean [of ?fs "''cube.fits''" ?f 2 1 2 no_writer "''avg.fits''" False]
  from t f obtain avg hdr where
    r: "fcubeavg no_writer ?fs ''cube.fits'' ''avg.fits'' False = (Inr (avg, hdr), ?fs)"
    by blast
  then have r1: "fst (fcubeavg no_writer ?fs ''cube.fits'' ''avg.fits'' False) = Inr (avg, hdr)"
    by simp
  from t f r1 have sh: "shape avg = [1, 2]"
    by blast
  from t f r1 have pt: "\<forall>q < 1 * 2.
            dat avg ! q =
              fdiv (foldl fadd (Fin 0)
                      (filter (\<lambda>x. \<not> isnan x)
                         (map (\<lambda>k. dat (fdata ?f) ! (k * (1 * 2) + q)) [0..<2])))
                   (Fin (real (length
                      (filter (\<lambda>x. \<not> isnan x)
                         (map (\<lambda>k. dat (fdata ?f) ! (k * (1 * 2) + q)) [0..<2]))))) \<and>
            ((\<forall>k < 2. isnan (dat (fdata ?f) ! (k * (1 * 2) + q))) \<longrightarrow> dat avg ! q = NaN)"
    by blast
  have "dat avg ! 0 = NaN"
    using pt [rule_format, of 0] by (simp add: u)
  moreover have "dat avg ! 1 = Fin 5"
    using pt [rule_format, of 1] by (simp add: u)
  ultimately show ?thesis
    using r sh by blast
qed

end
